theory Spec2Isabelle
  imports Complex_Main "HOL-Library.Sublist"
begin

section \<open>Strings\<close>

text \<open>
  A Python \<open>str\<close> is modelled as a \<open>string\<close>: a list of code points below 256.
  \<open>is_space\<close> is \<open>str.isspace\<close> on one such code point, \<open>strip\<close> is
  \<open>str.strip()\<close>, \<open>lower\<close> is \<open>str.lower()\<close> and \<open>contains s kw\<close> is the
  Python test \<open>kw in s\<close>.
\<close>

definition code :: "char \<Rightarrow> nat" where
  "code c = of_char c"

definition is_space :: "char \<Rightarrow> bool" where
  "is_space c = (let n = code c in
     (9 \<le> n \<and> n \<le> 13) \<or> (28 \<le> n \<and> n \<le> 32) \<or> n = 133 \<or> n = 160)"

definition strip :: "string \<Rightarrow> string" where
  "strip s = rev (dropWhile is_space (rev (dropWhile is_space s)))"

definition lower_char :: "char \<Rightarrow> char" where
  "lower_char c = (let n = code c in
     if (65 \<le> n \<and> n \<le> 90) \<or> (192 \<le> n \<and> n \<le> 222 \<and> n \<noteq> 215)
     then char_of (n + 32) else c)"

definition lower :: "string \<Rightarrow> string" where
  "lower s = map lower_char s"

fun contains :: "string \<Rightarrow> string \<Rightarrow> bool" where
  "contains [] kw = (kw = [])"
| "contains (c # cs) kw = (prefix kw (c # cs) \<or> contains cs kw)"

definition count_keywords :: "string list \<Rightarrow> string \<Rightarrow> nat" where
  "count_keywords kws s = length (filter (contains s) kws)"

section \<open>Sentiment scorer (services/sentiment\_analysis.py)\<close>

datatype SentimentLabel = VERY_POSITIVE | POSITIVE | NEUTRAL | NEGATIVE | VERY_NEGATIVE

text \<open>
  The values a pass can put into its result dictionary. The three library passes only
  produce numbers and strings; \<open>json.loads\<close> on the reply of the external model can
  produce any of them. Floats are modelled as reals (no rounding, no NaN).
\<close>

datatype jval = JNum real | JBool bool | JStr string | JNull | JList "jval list"
  | JObj "(string \<times> jval) list"

text \<open>
  What one analysis pass hands to the combiner: a dictionary, or something that is not a
  dictionary (a decoded JSON document that is no object).
\<close>

datatype presult = NotDict | Dict "string \<rightharpoonup> jval"

datatype error = TypeError | IndexError | AttributeError | ValueError

text \<open>\<open>v * weight\<close> for a float \<open>weight\<close>: defined on numbers and booleans, a
  \<open>TypeError\<close> on everything else.\<close>

fun mul_float :: "jval \<Rightarrow> real \<Rightarrow> error + real" where
  "mul_float (JNum x) w = Inr (x * w)"
| "mul_float (JBool b) w = Inr ((if b then 1 else 0) * w)"
| "mul_float v w = Inl TypeError"

text \<open>
  The number a value counts as in a comparison with a float: itself, 1 or 0 for a boolean,
  and a \<open>TypeError\<close> for everything else. \<open>gt_float v t\<close> is \<open>v > t\<close> and
  \<open>lt_float v t\<close> is \<open>v < t\<close>.
\<close>

fun num_of :: "jval \<Rightarrow> error + real" where
  "num_of (JNum x) = Inr x"
| "num_of (JBool b) = Inr (if b then 1 else 0)"
| "num_of v = Inl TypeError"

text \<open>Sequencing of steps that may raise: the first exception ends the run.\<close>

definition bind_err :: "error + 'a \<Rightarrow> ('a \<Rightarrow> error + 'b) \<Rightarrow> error + 'b" where
  "bind_err x f = (case x of Inl e \<Rightarrow> Inl e | Inr v \<Rightarrow> f v)"

definition gt_float :: "jval \<Rightarrow> real \<Rightarrow> error + bool" where
  "gt_float v t = bind_err (num_of v) (\<lambda>x. Inr (x > t))"

definition lt_float :: "jval \<Rightarrow> real \<Rightarrow> error + bool" where
  "lt_float v t = bind_err (num_of v) (\<lambda>x. Inr (x < t))"

text \<open>A field of a result, when the function returned one (and did not raise).\<close>

definition field_of :: "('r \<Rightarrow> 'a) \<Rightarrow> error + 'r \<Rightarrow> 'a option" where
  "field_of f r = (case r of Inl e \<Rightarrow> None | Inr v \<Rightarrow> Some (f v))"

text \<open>\<open>xs[-n:]\<close>: the last \<open>n\<close> elements.\<close>

definition last_n :: "nat \<Rightarrow> 'a list \<Rightarrow> 'a list" where
  "last_n n xs = drop (length xs - n) xs"

record SentimentScore =
  overall_sentiment :: SentimentLabel
  confidence :: real
  polarity :: real
  subjectivity :: jval
  intensity :: real
  emotions :: "(string \<times> real) list"
  urgency :: real
  engagement :: real
  satisfaction :: real
  purchase_intent :: real
  objection_level :: real
  trust_level :: real
  message_length :: nat

text \<open>The dictionary \<open>_analyze_sales_context\<close> returns: exactly these five keys.\<close>

record sales_context =
  sc_purchase_intent :: real
  sc_objection_level :: real
  sc_trust_level :: real
  sc_urgency :: real
  sc_engagement :: real

text \<open>
  The outcome of the external collaborators on the message at hand: \<open>None\<close> when the call
  (or the decoding of its reply) raised. The VADER scores are compound, pos, neg, neu;
  the TextBlob sentiment is polarity, subjectivity; the classifier gives a label and a score.
\<close>

record pass_replies =
  openai_reply :: "presult option"
  llama_reply :: "(string \<times> real) option"
  vader_reply :: "(real \<times> real \<times> real \<times> real) option"
  textblob_reply :: "(real \<times> real) option"
  emotion_reply :: "(string \<times> real) list option"

record engine =
  openai_client :: bool
  llama_pipeline :: bool
  emotion_pipeline :: bool
  sentiment_history :: "string \<rightharpoonup> SentimentScore list"

definition error_dict :: presult where
  "error_dict = Dict [''error'' \<mapsto> JStr ''unavailable'']"

definition analyze_with_openai :: "engine \<Rightarrow> pass_replies \<Rightarrow> presult" where
  "analyze_with_openai eng rep =
     (if \<not> openai_client eng then error_dict
      else case openai_reply rep of None \<Rightarrow> error_dict | Some r \<Rightarrow> r)"

definition label_map :: "string \<Rightarrow> string" where
  "label_map l =
     (if l = ''LABEL_0'' then ''negative''
      else if l = ''LABEL_1'' then ''neutral''
      else if l = ''LABEL_2'' then ''positive''
      else if l = ''negative'' then ''negative''
      else if l = ''neutral'' then ''neutral''
      else if l = ''positive'' then ''positive''
      else ''neutral'')"

definition analyze_with_llama :: "engine \<Rightarrow> pass_replies \<Rightarrow> presult" where
  "analyze_with_llama eng rep =
     (if \<not> llama_pipeline eng then error_dict
      else case llama_reply rep of
        None \<Rightarrow> error_dict
      | Some (label, score) \<Rightarrow>
          (let sentiment = label_map label; confidence = score in
           Dict [''sentiment'' \<mapsto> JStr sentiment,
                 ''confidence'' \<mapsto> JNum confidence,
                 ''polarity'' \<mapsto> JNum (if sentiment = ''positive'' then confidence
                                      else if sentiment = ''negative'' then - confidence
                                      else 0)]))"

definition analyze_with_vader :: "pass_replies \<Rightarrow> presult" where
  "analyze_with_vader rep =
     (case vader_reply rep of
        None \<Rightarrow> error_dict
      | Some (compound, pos, neg, neu) \<Rightarrow>
          (let sentiment =
             (if compound \<ge> 0.5 then ''positive''
              else if compound \<ge> 0.1 then ''neutral''
              else if compound \<le> - 0.5 then ''negative''
              else ''neutral'') in
           Dict [''sentiment'' \<mapsto> JStr sentiment,
                 ''confidence'' \<mapsto> JNum \<bar>compound\<bar>,
                 ''polarity'' \<mapsto> JNum compound,
                 ''positive'' \<mapsto> JNum pos,
                 ''negative'' \<mapsto> JNum neg,
                 ''neutral'' \<mapsto> JNum neu]))"

definition analyze_with_textblob :: "pass_replies \<Rightarrow> presult" where
  "analyze_with_textblob rep =
     (case textblob_reply rep of
        None \<Rightarrow> error_dict
      | Some (pol, subj) \<Rightarrow>
          (let sentiment =
             (if pol > 0.1 then ''positive''
              else if pol < - 0.1 then ''negative''
              else ''neutral'') in
           Dict [''sentiment'' \<mapsto> JStr sentiment,
                 ''confidence'' \<mapsto> JNum \<bar>pol\<bar>,
                 ''polarity'' \<mapsto> JNum pol,
                 ''subjectivity'' \<mapsto> JNum subj]))"

definition analyze_emotions :: "engine \<Rightarrow> pass_replies \<Rightarrow> (string \<times> real) list option" where
  "analyze_emotions eng rep =
     (if \<not> emotion_pipeline eng then None else emotion_reply rep)"

definition purchase_keywords :: "string list" where
  "purchase_keywords = [''buy'', ''purchase'', ''order'', ''get'', ''want'', ''need'',
     ''interested'', ''price'', ''cost'', ''how much'', ''available'', ''in stock'']"

definition objection_keywords :: "string list" where
  "objection_keywords = [''but'', ''however'', ''expensive'', ''too much'', ''can't afford'',
     ''not sure'', ''maybe later'', ''think about it'', ''not interested'']"

definition trust_keywords :: "string list" where
  "trust_keywords = [''thank you'', ''great'', ''perfect'', ''excellent'', ''helpful'',
     ''recommend'', ''trust'', ''reliable'', ''good'']"

definition urgency_keywords :: "string list" where
  "urgency_keywords = [''urgent'', ''asap'', ''quickly'', ''soon'', ''immediately'', ''rush'',
     ''deadline'', ''time sensitive'']"

definition keyword_ratio :: "string list \<Rightarrow> string \<Rightarrow> real" where
  "keyword_ratio kws s = real (count_keywords kws s) / real (length kws)"

definition analyze_sales_context :: "string \<Rightarrow> sales_context option" where
  "analyze_sales_context message =
     (let message_lower = lower message in
      Some \<lparr> sc_purchase_intent = min (keyword_ratio purchase_keywords message_lower * 2) 1,
             sc_objection_level = min (keyword_ratio objection_keywords message_lower * 3) 1,
             sc_trust_level = min (keyword_ratio trust_keywords message_lower * 2) 1,
             sc_urgency = min (keyword_ratio urgency_keywords message_lower * 3) 1,
             sc_engagement = min (real (length message) / 100) 1 \<rparr>)"

text \<open>
  One round of the loop of \<open>_combine_sentiment_results\<close>: the accumulator holds the lists
  \<open>confidences\<close> and \<open>polarities\<close>. (The list \<open>sentiments\<close> of the source is filled
  but never read.)
\<close>

definition process_result ::
  "presult \<Rightarrow> real \<Rightarrow> real list \<times> real list \<Rightarrow> error + real list \<times> real list" where
  "process_result result weight acc =
     (case result of
        NotDict \<Rightarrow> Inr acc
      | Dict d \<Rightarrow>
          if d ''error'' \<noteq> None then Inr acc
          else
            (case (case d ''confidence'' of
                     None \<Rightarrow> Inr (fst acc)
                   | Some v \<Rightarrow> (case mul_float v weight of
                                 Inl e \<Rightarrow> Inl e
                               | Inr x \<Rightarrow> Inr (fst acc @ [x]))) of
               Inl e \<Rightarrow> Inl e
             | Inr confidences \<Rightarrow>
                 (case d ''polarity'' of
                    None \<Rightarrow> Inr (confidences, snd acc)
                  | Some v \<Rightarrow> (case mul_float v weight of
                                Inl e \<Rightarrow> Inl e
                              | Inr x \<Rightarrow> Inr (confidences, snd acc @ [x])))))"

fun process_results ::
  "(presult \<times> real) list \<Rightarrow> real list \<times> real list \<Rightarrow> error + real list \<times> real list" where
  "process_results [] acc = Inr acc"
| "process_results ((result, weight) # rest) acc =
     (case process_result result weight acc of
        Inl e \<Rightarrow> Inl e
      | Inr acc' \<Rightarrow> process_results rest acc')"

definition label_of :: "real \<Rightarrow> SentimentLabel" where
  "label_of overall_polarity =
     (if overall_polarity > 0.5 then VERY_POSITIVE
      else if overall_polarity > 0.1 then POSITIVE
      else if overall_polarity < - 0.5 then VERY_NEGATIVE
      else if overall_polarity < - 0.1 then NEGATIVE
      else NEUTRAL)"

definition default_sales_metrics :: sales_context where
  "default_sales_metrics =
     \<lparr> sc_purchase_intent = 0.5, sc_objection_level = 0, sc_trust_level = 0.5,
       sc_urgency = 0, sc_engagement = 0.5 \<rparr>"

text \<open>\<open>textblob_result.get("subjectivity", 0.5) if isinstance(textblob_result, dict) else 0.5\<close>\<close>

definition subjectivity_of :: "presult \<Rightarrow> jval" where
  "subjectivity_of r =
     (case r of
        NotDict \<Rightarrow> JNum 0.5
      | Dict d \<Rightarrow> (case d ''subjectivity'' of None \<Rightarrow> JNum 0.5 | Some v \<Rightarrow> v))"

definition combine_sentiment_results ::
  "presult \<Rightarrow> presult \<Rightarrow> presult \<Rightarrow> presult \<Rightarrow> (string \<times> real) list option \<Rightarrow>
   sales_context option \<Rightarrow> string \<Rightarrow> error + SentimentScore" where
  "combine_sentiment_results openai_result llama_result vader_result textblob_result
       emotions_result sales_ctx message =
     (case process_results
             [(openai_result, 0.3), (llama_result, 0.25), (vader_result, 0.25),
              (textblob_result, 0.2)] ([], []) of
        Inl e \<Rightarrow> Inl e
      | Inr (confidences, polarities) \<Rightarrow>
          (let overall_polarity = (if polarities \<noteq> [] then sum_list polarities else 0);
               overall_confidence = (if confidences \<noteq> [] then sum_list confidences else 0.5);
               sales_metrics = (case sales_ctx of None \<Rightarrow> default_sales_metrics | Some sc \<Rightarrow> sc)
           in Inr \<lparr> overall_sentiment = label_of overall_polarity,
                    confidence = overall_confidence,
                    polarity = overall_polarity,
                    subjectivity = subjectivity_of textblob_result,
                    intensity = \<bar>overall_polarity\<bar>,
                    emotions = (case emotions_result of None \<Rightarrow> [] | Some es \<Rightarrow> es),
                    urgency = sc_urgency sales_metrics,
                    engagement = sc_engagement sales_metrics,
                    satisfaction = max 0 overall_polarity,
                    purchase_intent = sc_purchase_intent sales_metrics,
                    objection_level = sc_objection_level sales_metrics,
                    trust_level = sc_trust_level sales_metrics,
                    message_length = length message \<rparr>))"

definition create_neutral_sentiment :: SentimentScore where
  "create_neutral_sentiment =
     \<lparr> overall_sentiment = NEUTRAL, confidence = 0.5, polarity = 0, subjectivity = JNum 0.5,
       intensity = 0, emotions = [], urgency = 0, engagement = 0.5, satisfaction = 0.5,
       purchase_intent = 0.5, objection_level = 0, trust_level = 0.5, message_length = 0 \<rparr>"

text \<open>
  The history update at the end of \<open>analyze_message_sentiment\<close>: create the list of the
  id when it is missing, append, and keep the slice \<open>[-50:]\<close> when there are more than 50.
\<close>

definition store_in_history ::
  "(string \<rightharpoonup> SentimentScore list) \<Rightarrow> string \<Rightarrow> SentimentScore \<Rightarrow>
   (string \<rightharpoonup> SentimentScore list)" where
  "store_in_history h user_id s =
     (let l = (case h user_id of None \<Rightarrow> [] | Some l \<Rightarrow> l) @ [s] in
      h(user_id \<mapsto> (if length l > 50 then drop (length l - 50) l else l)))"

definition analyze_message_sentiment ::
  "engine \<Rightarrow> pass_replies \<Rightarrow> string \<Rightarrow> string \<Rightarrow> SentimentScore \<times> engine" where
  "analyze_message_sentiment eng rep message user_id =
     (let message_clean = strip message in
      if message_clean = [] then (create_neutral_sentiment, eng)
      else
        (case combine_sentiment_results
                (analyze_with_openai eng rep) (analyze_with_llama eng rep)
                (analyze_with_vader rep) (analyze_with_textblob rep)
                (analyze_emotions eng rep) (analyze_sales_context message_clean)
                message_clean of
           Inl e \<Rightarrow> (create_neutral_sentiment, eng)
         | Inr sentiment_score \<Rightarrow>
             (sentiment_score,
              eng\<lparr>sentiment_history :=
                    store_in_history (sentiment_history eng) user_id sentiment_score\<rparr>)))"

definition history_of :: "(string \<rightharpoonup> SentimentScore list) \<Rightarrow> string \<Rightarrow> SentimentScore list" where
  "history_of h user_id = (case h user_id of None \<Rightarrow> [] | Some l \<Rightarrow> l)"

text \<open>
  A call \<open>analyze_message_sentiment(message, user_id)\<close> together with what the
  collaborators answer on it. The call reaches the history update when the stripped
  message is not empty and the combination does not raise.
\<close>

type_synonym call = "pass_replies \<times> string \<times> string"

definition records :: "engine \<Rightarrow> pass_replies \<Rightarrow> string \<Rightarrow> bool" where
  "records eng rep message =
     (strip message \<noteq> [] \<and>
      (case combine_sentiment_results
              (analyze_with_openai eng rep) (analyze_with_llama eng rep)
              (analyze_with_vader rep) (analyze_with_textblob rep)
              (analyze_emotions eng rep) (analyze_sales_context (strip message))
              (strip message) of
         Inl e \<Rightarrow> False
       | Inr s \<Rightarrow> True))"

text \<open>
  A sequence of calls on one engine, each on the state the one before left: the result is
  the log of the scores that were returned by the calls that reach the history update,
  each with its id, in arrival order, and the engine after the last call.
\<close>

fun analyze_all :: "engine \<Rightarrow> call list \<Rightarrow> (string \<times> SentimentScore) list \<times> engine" where
  "analyze_all eng [] = ([], eng)"
| "analyze_all eng ((rep, message, user_id) # calls) =
     (let (score, eng') = analyze_message_sentiment eng rep message user_id;
          (log, eng'') = analyze_all eng' calls
      in ((if records eng rep message then [(user_id, score)] else []) @ log, eng''))"

text \<open>The scores recorded for one id, in arrival order.\<close>

definition scores_for :: "string \<Rightarrow> (string \<times> SentimentScore) list \<Rightarrow> SentimentScore list" where
  "scores_for uid xs = map snd (filter (\<lambda>x. fst x = uid) xs)"

text \<open>The engine as \<open>__init__\<close> leaves it when no optional model is configured.\<close>

definition new_engine :: engine where
  "new_engine = \<lparr> openai_client = False, llama_pipeline = False, emotion_pipeline = False,
                  sentiment_history = Map.empty \<rparr>"

subsection \<open>Documented bounds of a score\<close>





text \<open>
  A pass result is in range when the numbers the combiner reads from it are: a numeric
  \<open>polarity\<close> in \<open>[-1, 1]\<close> and a numeric \<open>confidence\<close> in \<open>[0, 1]\<close>. A result the combiner
  skips (no dictionary, or one with an \<open>error\<close> key) is in range.
\<close>

definition num_in :: "real \<Rightarrow> real \<Rightarrow> jval option \<Rightarrow> bool" where
  "num_in lo hi v = (case v of Some (JNum x) \<Rightarrow> lo \<le> x \<and> x \<le> hi | _ \<Rightarrow> True)"

definition result_in_range :: "presult \<Rightarrow> bool" where
  "result_in_range r =
     (case r of
        NotDict \<Rightarrow> True
      | Dict d \<Rightarrow>
          if d ''error'' \<noteq> None then True
          else num_in (- 1) 1 (d ''polarity'') \<and> num_in 0 1 (d ''confidence''))"




text \<open>
  The combination as the specification words it: the average of the values of the passes
  that are present, each with its fixed weight, the weights renormalised over the present
  passes. The argument lists the present passes as (value, weight).
\<close>

definition spec_weighted_average :: "(real \<times> real) list \<Rightarrow> real" where
  "spec_weighted_average vws =
     sum_list (map (\<lambda>(v, w). v * w) vws) / sum_list (map snd vws)"

text \<open>Replies used as concrete inputs: only the two lexicon passes answer.\<close>

definition lexicon_replies :: "real \<Rightarrow> real \<Rightarrow> pass_replies" where
  "lexicon_replies compound pol =
     \<lparr> openai_reply = None, llama_reply = None,
       vader_reply = Some (compound, 0.6, 0, 0.4),
       textblob_reply = Some (pol, 0.75), emotion_reply = None \<rparr>"

definition vader_only_replies :: "real \<Rightarrow> pass_replies" where
  "vader_only_replies compound =
     \<lparr> openai_reply = None, llama_reply = None,
       vader_reply = Some (compound, 0.6, 0, 0.4),
       textblob_reply = None, emotion_reply = None \<rparr>"

definition llm_replies :: "presult \<Rightarrow> pass_replies" where
  "llm_replies r =
     \<lparr> openai_reply = Some r, llama_reply = None,
       vader_reply = Some (0, 0, 0, 1),
       textblob_reply = Some (0, 0), emotion_reply = None \<rparr>"

definition llm_engine :: engine where
  "llm_engine = new_engine\<lparr>openai_client := True\<rparr>"

definition numbered_score :: "nat \<Rightarrow> SentimentScore" where
  "numbered_score n = create_neutral_sentiment\<lparr>message_length := n\<rparr>"

text \<open>An engine whose history for ``room'' is full: 50 scores, numbered 0 to 49.\<close>

definition full_engine :: engine where
  "full_engine = new_engine\<lparr>sentiment_history := [''room'' \<mapsto> map numbered_score [0..<50]]\<rparr>"



section \<open>Question generator (services/question\_generator.py)\<close>

datatype QuestionType = OPEN_ENDED | CLOSED_ENDED | PROBING | CLARIFYING
  | QT_OBJECTION_HANDLING | QT_CLOSING | QT_FOLLOW_UP

datatype ConversationStage = OPENING | DISCOVERY | PRESENTATION | OBJECTION_HANDLING
  | CLOSING | FOLLOW_UP

text \<open>
  The fields of \<open>Question\<close> carry the prefix \<open>q_\<close> and the scalars of
  \<open>ConversationContext\<close> the prefix \<open>ctx_\<close>, since \<open>text\<close> and \<open>context\<close> are
  keywords here and \<open>purchase_intent\<close>, \<open>objection_level\<close>, \<open>trust_level\<close> are fields
  of \<open>SentimentScore\<close> already. A list field that defaults to \<open>None\<close> is an option.
  The text, the context and the expected response type of a question are JSON values: a
  template holds strings there, a question built from the reply of the external model
  holds whatever the reply holds.
\<close>

record Question =
  q_question_id :: string
  q_text :: jval
  q_question_type :: QuestionType
  q_conversation_stage :: ConversationStage
  q_context :: jval
  q_expected_response_type :: jval
  q_follow_up_questions :: "string list option"
  q_success_indicators :: "string list option"
  q_objection_handling :: bool

text \<open>\<open>ConversationContext\<close> as the dataclass declares it.\<close>

record ConversationContext =
  stage :: ConversationStage
  customer_sentiment :: string
  customer_engagement :: real
  ctx_purchase_intent :: real
  ctx_objection_level :: real
  ctx_trust_level :: real
  topics_discussed :: "string list"
  questions_asked :: "string list"
  customer_responses :: "string list"
  current_topic :: string
  conversation_duration :: real

text \<open>
  The context object as it lives in \<open>conversation_contexts\<close>. Nothing checks the
  declared types: \<open>_update_conversation_context\<close> stores in the five sentiment fields
  whatever values the \<open>sentiment_data\<close> dictionary holds (\<open>Dict[str, Any]\<close>, handed on
  as received by the handler of \<open>/questions/generate\<close>), and \<open>generate_question\<close> appends
  to \<open>questions_asked\<close> the text of the question, whatever it is. The fields carry the
  prefix \<open>cx_\<close>.
\<close>

record stored_context =
  cx_stage :: ConversationStage
  cx_customer_sentiment :: jval
  cx_customer_engagement :: jval
  cx_purchase_intent :: jval
  cx_objection_level :: jval
  cx_trust_level :: jval
  cx_topics_discussed :: "string list"
  cx_questions_asked :: "jval list"
  cx_customer_responses :: "string list"
  cx_current_topic :: string
  cx_conversation_duration :: real

text \<open>A context that has the declared types, as the object that is stored.\<close>

definition as_stored :: "ConversationContext \<Rightarrow> stored_context" where
  "as_stored c =
     \<lparr> cx_stage = stage c,
       cx_customer_sentiment = JStr (customer_sentiment c),
       cx_customer_engagement = JNum (customer_engagement c),
       cx_purchase_intent = JNum (ctx_purchase_intent c),
       cx_objection_level = JNum (ctx_objection_level c),
       cx_trust_level = JNum (ctx_trust_level c),
       cx_topics_discussed = topics_discussed c,
       cx_questions_asked = map JStr (questions_asked c),
       cx_customer_responses = customer_responses c,
       cx_current_topic = current_topic c,
       cx_conversation_duration = conversation_duration c \<rparr>"

text \<open>
  The outcome of the external text-generation call: it raised (the request failed, or the
  content was no JSON), or \<open>json.loads\<close> gave a document that is not an object, or it gave
  an object.
\<close>

datatype ai_reply = CallFailed | NotObject | Object "string \<rightharpoonup> jval"

record generator =
  gen_openai_client :: bool
  question_templates :: "ConversationStage \<Rightarrow> Question list"
  conversation_contexts :: "string \<rightharpoonup> stored_context"

definition template ::
  "string \<Rightarrow> string \<Rightarrow> QuestionType \<Rightarrow> ConversationStage \<Rightarrow> string \<Rightarrow> string \<Rightarrow>
   string list option \<Rightarrow> string list option \<Rightarrow> bool \<Rightarrow> Question" where
  "template qid txt ty st ctx ert fu si oh =
     \<lparr> q_question_id = qid, q_text = JStr txt, q_question_type = ty, q_conversation_stage = st,
       q_context = JStr ctx, q_expected_response_type = JStr ert, q_follow_up_questions = fu,
       q_success_indicators = si, q_objection_handling = oh \<rparr>"

fun initial_question_templates :: "ConversationStage \<Rightarrow> Question list" where
  "initial_question_templates OPENING =
     [template ''OPEN_001''
        ''Hello! I'm here to help you find the perfect book. What brings you in today?''
        OPEN_ENDED OPENING ''Initial greeting and discovery'' ''customer_need''
        (Some [''What type of books do you usually enjoy reading?''])
        (Some [''specific interest'', ''book mention'', ''genre preference'']) False,
      template ''OPEN_002''
        ''Are you looking for something specific today, or would you like me to recommend some great books?''
        CLOSED_ENDED OPENING ''Directive opening'' ''yes_no_or_specific''
        (Some [''What genre interests you most?'']) None False]"
| "initial_question_templates DISCOVERY =
     [template ''DISC_001'' ''What's your favorite genre of books?''
        OPEN_ENDED DISCOVERY ''Genre preference discovery'' ''genre_preference''
        (Some [''Who are some of your favorite authors in that genre?'']) None False,
      template ''DISC_002'' ''Are you looking for fiction or non-fiction today?''
        CLOSED_ENDED DISCOVERY ''Fiction vs non-fiction preference'' ''fiction_or_nonfiction''
        (Some [''What topics interest you most in non-fiction?'']) None False,
      template ''DISC_003'' ''What's the last book you read that you really enjoyed?''
        OPEN_ENDED DISCOVERY ''Reading history and preferences'' ''book_title_and_reason''
        (Some [''What did you like most about that book?'']) None False,
      template ''DISC_004''
        ''Are you looking for something light and entertaining, or more serious and thought-provoking?''
        CLOSED_ENDED DISCOVERY ''Reading mood and tone preference'' ''mood_preference''
        (Some [''What kind of stories usually capture your attention?'']) None False]"
| "initial_question_templates PRESENTATION =
     [template ''PRES_001''
        ''Based on what you've told me, I think you'd really enjoy this book. Would you like me to tell you more about it?''
        CLOSED_ENDED PRESENTATION ''Book recommendation presentation'' ''yes_no''
        (Some [''What aspects of the book would you like to know more about?'']) None False,
      template ''PRES_002''
        ''This book has received excellent reviews. Would you like to hear what other readers are saying about it?''
        CLOSED_ENDED PRESENTATION ''Social proof presentation'' ''yes_no''
        (Some [''Would you like to see some specific reviews?'']) None False]"
| "initial_question_templates OBJECTION_HANDLING =
     [template ''OBJ_001''
        ''I understand your concern about the price. What if I could show you how this book provides value that far exceeds its cost?''
        QT_OBJECTION_HANDLING OBJECTION_HANDLING ''Price objection handling''
        ''objection_response'' None None True,
      template ''OBJ_002''
        ''That's a valid point. What specific aspects of the book are you unsure about?''
        PROBING OBJECTION_HANDLING ''Objection clarification'' ''specific_concerns''
        None None True]"
| "initial_question_templates CLOSING =
     [template ''CLOSE_001''
        ''This book seems like a perfect match for you. Would you like to take it home today?''
        QT_CLOSING CLOSING ''Direct close'' ''yes_no''
        (Some [''What payment method would you prefer?'']) None False,
      template ''CLOSE_002''
        ''I can see you're really interested in this book. Shall we go ahead and get it for you?''
        QT_CLOSING CLOSING ''Assumptive close'' ''yes_no_or_concern'' None None False]"
| "initial_question_templates FOLLOW_UP = []"

definition topic_keywords :: "(string \<times> string list) list" where
  "topic_keywords =
     [(''fiction'', [''fiction'', ''novel'', ''story'', ''character'']),
      (''non-fiction'', [''non-fiction'', ''fact'', ''real'', ''true story'']),
      (''mystery'', [''mystery'', ''thriller'', ''suspense'', ''crime'']),
      (''romance'', [''romance'', ''love'', ''relationship'', ''romantic'']),
      (''business'', [''business'', ''finance'', ''money'', ''investment'']),
      (''self-help'', [''self-help'', ''motivation'', ''improvement'', ''personal development'']),
      (''price'', [''price'', ''cost'', ''expensive'', ''cheap'', ''budget'']),
      (''author'', [''author'', ''writer'', ''wrote'']),
      (''genre'', [''genre'', ''type'', ''category'', ''kind''])]"

definition extract_topics :: "string \<Rightarrow> string list" where
  "extract_topics message =
     (let message_lower = lower message in
      map fst (filter (\<lambda>(topic, keywords). list_ex (contains message_lower) keywords)
                 topic_keywords))"

definition determine_conversation_stage :: "ConversationContext \<Rightarrow> ConversationStage" where
  "determine_conversation_stage ctx =
     (if ctx_objection_level ctx > 0.6 then OBJECTION_HANDLING
      else if ctx_purchase_intent ctx > 0.7 \<and> ctx_trust_level ctx > 0.6 \<and>
              length (questions_asked ctx) > 3 then CLOSING
      else if length (topics_discussed ctx) > 2 \<and>
              list_ex (\<lambda>topic. topic \<in> set (topics_discussed ctx))
                [''genre'', ''author'', ''fiction'', ''non-fiction''] then PRESENTATION
      else if length (questions_asked ctx) < 3 then DISCOVERY
      else PRESENTATION)"

text \<open>
  The same function on the stored object. A comparison of a value that is no number with
  a float raises \<open>TypeError\<close>; \<open>and\<close> evaluates its right operand only when the left one
  is true, so the trust level is compared only when the purchase intent is above 0.7.
\<close>

definition determine_stage :: "stored_context \<Rightarrow> error + ConversationStage" where
  "determine_stage ctx =
     bind_err (gt_float (cx_objection_level ctx) 0.6) (\<lambda>objecting.
       if objecting then Inr OBJECTION_HANDLING
       else
         bind_err (gt_float (cx_purchase_intent ctx) 0.7) (\<lambda>intent.
           bind_err (if intent then gt_float (cx_trust_level ctx) 0.6 else Inr False) (\<lambda>trust.
             if intent \<and> trust \<and> length (cx_questions_asked ctx) > 3 then Inr CLOSING
             else if length (cx_topics_discussed ctx) > 2 \<and>
                     list_ex (\<lambda>topic. topic \<in> set (cx_topics_discussed ctx))
                       [''genre'', ''author'', ''fiction'', ''non-fiction''] then Inr PRESENTATION
             else if length (cx_questions_asked ctx) < 3 then Inr DISCOVERY
             else Inr PRESENTATION)))"

definition extract_current_topic :: "string \<Rightarrow> string" where
  "extract_current_topic message =
     (let message_lower = lower message in
      if list_ex (contains message_lower) [''price'', ''cost'', ''expensive'', ''cheap'']
        then ''price''
      else if list_ex (contains message_lower) [''genre'', ''type'', ''fiction'', ''non-fiction'']
        then ''genre''
      else if list_ex (contains message_lower) [''author'', ''writer''] then ''author''
      else if list_ex (contains message_lower) [''buy'', ''purchase'', ''order''] then ''purchase''
      else ''general'')"

definition get_or :: "'a option \<Rightarrow> 'a \<Rightarrow> 'a" where
  "get_or v d = (case v of None \<Rightarrow> d | Some x \<Rightarrow> x)"

text \<open>
  The \<open>sentiment_data\<close> argument is \<open>None\<close> or a dictionary from strings to any values,
  given as the list of its items; \<open>dict_get d k v\<close> is \<open>d.get(k, v)\<close>.
\<close>

definition dict_get :: "(string \<times> jval) list \<Rightarrow> string \<Rightarrow> jval \<Rightarrow> jval" where
  "dict_get d k v = get_or (map_of d k) v"

text \<open>
  \<open>_update_conversation_context\<close> changes the context object in place, step by step, and
  raises when the stage cannot be determined: the result is the object as the call leaves
  it, and the exception if there was one. The sentiment fields are overwritten when
  \<open>sentiment_data\<close> is a non-empty dictionary.
\<close>

definition update_conversation_context ::
  "stored_context \<Rightarrow> string list \<Rightarrow> (string \<times> jval) list option \<Rightarrow>
   stored_context \<times> error option" where
  "update_conversation_context ctx conversation_history sd =
     (let ctx1 = (case sd of
                    None \<Rightarrow> ctx
                  | Some d \<Rightarrow>
                      if d = [] then ctx
                      else
                      ctx\<lparr> cx_customer_sentiment := dict_get d ''overall_sentiment'' (JStr ''neutral''),
                           cx_customer_engagement := dict_get d ''engagement'' (JNum 0.5),
                           cx_purchase_intent := dict_get d ''purchase_intent'' (JNum 0.5),
                           cx_objection_level := dict_get d ''objection_level'' (JNum 0),
                           cx_trust_level := dict_get d ''trust_level'' (JNum 0.5) \<rparr>);
          recent_messages = last_n 10 conversation_history;
          ctx2 = ctx1\<lparr> cx_topics_discussed :=
                          cx_topics_discussed ctx1 @ concat (map extract_topics recent_messages),
                       cx_customer_responses :=
                          cx_customer_responses ctx1 @
                          filter (\<lambda>message. \<not> prefix ''Assistant:'' message \<and>
                                             \<not> prefix ''Agent:'' message) recent_messages \<rparr>
      in case determine_stage ctx2 of
           Inl e \<Rightarrow> (ctx2, Some e)
         | Inr st \<Rightarrow>
             (let ctx3 = ctx2\<lparr> cx_stage := st \<rparr>
              in (if cx_customer_responses ctx3 \<noteq> []
                  then ctx3\<lparr> cx_current_topic :=
                               extract_current_topic (last (cx_customer_responses ctx3)) \<rparr>
                  else ctx3, None)))"

text \<open>\<open>QuestionType(value)\<close>: the member with that value, a \<open>ValueError\<close> otherwise.\<close>

definition question_type_of :: "string \<Rightarrow> error + QuestionType" where
  "question_type_of v =
     (if v = ''open_ended'' then Inr OPEN_ENDED
      else if v = ''closed_ended'' then Inr CLOSED_ENDED
      else if v = ''probing'' then Inr PROBING
      else if v = ''clarifying'' then Inr CLARIFYING
      else if v = ''objection_handling'' then Inr QT_OBJECTION_HANDLING
      else if v = ''closing'' then Inr QT_CLOSING
      else if v = ''follow_up'' then Inr QT_FOLLOW_UP
      else Inl ValueError)"

text \<open>The values of the members are strings: no other value names a member.\<close>

definition question_type_of_value :: "jval \<Rightarrow> error + QuestionType" where
  "question_type_of_value v = (case v of JStr name \<Rightarrow> question_type_of name | _ \<Rightarrow> Inl ValueError)"

text \<open>
  The body of the \<open>try\<close> of \<open>_generate_ai_question\<close>, after the request: \<open>now\<close> is the
  formatted clock reading that goes into the question id.
\<close>

definition build_ai_question :: "stored_context \<Rightarrow> string \<Rightarrow> ai_reply \<Rightarrow> error + Question" where
  "build_ai_question ctx now reply =
     (case reply of
        CallFailed \<Rightarrow> Inl ValueError
      | NotObject \<Rightarrow> Inl AttributeError
      | Object ai_result \<Rightarrow>
          (case question_type_of_value
                  (get_or (ai_result ''question_type'') (JStr ''open_ended'')) of
             Inl e \<Rightarrow> Inl e
           | Inr ty \<Rightarrow>
               Inr \<lparr> q_question_id = ''AI_'' @ now,
                     q_text = get_or (ai_result ''question_text'') (JStr ''''),
                     q_question_type = ty,
                     q_conversation_stage = cx_stage ctx,
                     q_context = get_or (ai_result ''context'') (JStr ''''),
                     q_expected_response_type =
                       get_or (ai_result ''expected_response'') (JStr ''general''),
                     q_follow_up_questions = None,
                     q_success_indicators = None,
                     q_objection_handling = False \<rparr>))"

text \<open>\<open>_generate_ai_question\<close> answers every exception of its body with \<open>None\<close>.\<close>

definition generate_ai_question :: "stored_context \<Rightarrow> string \<Rightarrow> ai_reply \<Rightarrow> Question option" where
  "generate_ai_question ctx now reply =
     (case build_ai_question ctx now reply of Inl e \<Rightarrow> None | Inr q \<Rightarrow> Some q)"

text \<open>
  \<open>any(similar in question.text.lower() for similar in context.questions_asked)\<close>:
  for each question asked, \<open>lower\<close> needs the text to be a string (\<open>AttributeError\<close>) and
  \<open>in\<close> needs the question asked to be one (\<open>TypeError\<close>); the first hit ends the search.
\<close>

fun any_similar :: "jval \<Rightarrow> jval list \<Rightarrow> error + bool" where
  "any_similar txt [] = Inr False"
| "any_similar txt (similar # rest) =
     (case txt of
        JStr t \<Rightarrow>
          (case similar of
             JStr sim \<Rightarrow> if contains (lower t) sim then Inr True else any_similar txt rest
           | _ \<Rightarrow> Inl TypeError)
      | _ \<Rightarrow> Inl AttributeError)"

definition is_question_suitable :: "Question \<Rightarrow> stored_context \<Rightarrow> error + bool" where
  "is_question_suitable question ctx =
     bind_err (if q_objection_handling question then lt_float (cx_objection_level ctx) 0.3
               else Inr False) (\<lambda>calm.
       if calm then Inr False
       else if q_conversation_stage question \<noteq> cx_stage ctx then Inr False
       else bind_err (any_similar (q_text question) (cx_questions_asked ctx)) (\<lambda>asked.
              Inr (\<not> asked)))"

text \<open>The loop of \<open>_generate_template_question\<close> that collects the suitable questions.\<close>

fun suitable_questions :: "Question list \<Rightarrow> stored_context \<Rightarrow> error + Question list" where
  "suitable_questions [] ctx = Inr []"
| "suitable_questions (question # rest) ctx =
     (if q_text question \<in> set (cx_questions_asked ctx) then suitable_questions rest ctx
      else bind_err (is_question_suitable question ctx) (\<lambda>suitable.
             bind_err (suitable_questions rest ctx) (\<lambda>others.
               Inr (if suitable then question # others else others))))"

text \<open>\<open>random.choice\<close> is modelled by the index \<open>pick\<close> it draws (taken modulo the length).\<close>

definition generate_template_question ::
  "generator \<Rightarrow> stored_context \<Rightarrow> nat \<Rightarrow> error + Question option" where
  "generate_template_question gen ctx pick =
     (let stage_questions = question_templates gen (cx_stage ctx) in
      if stage_questions = [] then Inr None
      else
        bind_err (suitable_questions stage_questions ctx) (\<lambda>suitable.
          if suitable = []
          then Inr (Some \<lparr> q_question_id = ''GENERIC_001'',
                     q_text = JStr ''Tell me more about what you're looking for in a book.'',
                     q_question_type = OPEN_ENDED,
                     q_conversation_stage = cx_stage ctx,
                     q_context = JStr ''Generic follow-up'',
                     q_expected_response_type = JStr ''general'',
                     q_follow_up_questions = None,
                     q_success_indicators = None,
                     q_objection_handling = False \<rparr>)
          else Inr (Some (suitable ! (pick mod length suitable)))))"

definition new_context :: ConversationContext where
  "new_context =
     \<lparr> stage = OPENING, customer_sentiment = ''neutral'', customer_engagement = 0.5,
       ctx_purchase_intent = 0.5, ctx_objection_level = 0, ctx_trust_level = 0.5,
       topics_discussed = [], questions_asked = [], customer_responses = [],
       current_topic = '''', conversation_duration = 0 \<rparr>"

text \<open>
  \<open>generate_question(room_id, conversation_history, sentiment_data)\<close>, with the reply of
  the external model, the clock reading and the random draw as further arguments. The
  context object of the room is in \<open>conversation_contexts\<close> from the start (a new one is
  stored as soon as it is made), so what the steps change in it stays changed when a
  later step raises. The \<open>except Exception\<close> around the whole body answers every
  exception with \<open>None\<close>. The room id and the conversation history have their declared
  types, \<open>str\<close> and \<open>List[str]\<close>.
\<close>

definition generate_question ::
  "generator \<Rightarrow> string \<Rightarrow> string list \<Rightarrow> (string \<times> jval) list option \<Rightarrow> ai_reply \<Rightarrow>
   string \<Rightarrow> nat \<Rightarrow> Question option \<times> generator" where
  "generate_question gen room_id conversation_history sd reply now pick =
     (let ctx0 = (case conversation_contexts gen room_id of
                    None \<Rightarrow> as_stored new_context
                  | Some c \<Rightarrow> c);
          (ctx, raised) = update_conversation_context ctx0 conversation_history sd;
          unasked = gen\<lparr> conversation_contexts := (conversation_contexts gen)(room_id \<mapsto> ctx) \<rparr>
      in case raised of
           Some e \<Rightarrow> (None, unasked)
         | None \<Rightarrow>
             (case (if gen_openai_client gen then Inr (generate_ai_question ctx now reply)
                    else generate_template_question gen ctx pick) of
                Inl e \<Rightarrow> (None, unasked)
              | Inr None \<Rightarrow> (None, unasked)
              | Inr (Some question) \<Rightarrow>
                  (Some question,
                   gen\<lparr> conversation_contexts := (conversation_contexts gen)
                          (room_id \<mapsto> ctx\<lparr> cx_questions_asked :=
                                              cx_questions_asked ctx @ [q_text question] \<rparr>) \<rparr>)))"

text \<open>The generator as \<open>__init__\<close> leaves it, with or without an API key.\<close>

definition new_generator :: "bool \<Rightarrow> generator" where
  "new_generator has_key =
     \<lparr> gen_openai_client = has_key, question_templates = initial_question_templates,
       conversation_contexts = Map.empty \<rparr>"

text \<open>
  The external pass fails: the call raises, or its output is no JSON object, or the
  \<open>question_type\<close> of the object is not the value of a member of \<open>QuestionType\<close>.
\<close>

definition ai_pass_fails :: "ai_reply \<Rightarrow> bool" where
  "ai_pass_fails reply =
     (case reply of
        CallFailed \<Rightarrow> True
      | NotObject \<Rightarrow> True
      | Object d \<Rightarrow>
          (case question_type_of_value (get_or (d ''question_type'') (JStr ''open_ended'')) of
             Inl e \<Rightarrow> True | Inr ty \<Rightarrow> False))"

text \<open>The questions asked that the generator holds for a room: none when it holds no
  context for the room.\<close>

definition asked_in :: "generator \<Rightarrow> string \<Rightarrow> jval list" where
  "asked_in gen room_id =
     (case conversation_contexts gen room_id of None \<Rightarrow> [] | Some c \<Rightarrow> cx_questions_asked c)"

text \<open>
  The transition function as C2 words it: the third rule asks for at least three
  distinct topics.
\<close>

definition stage_as_claimed :: "ConversationContext \<Rightarrow> ConversationStage" where
  "stage_as_claimed ctx =
     (if ctx_objection_level ctx > 0.6 then OBJECTION_HANDLING
      else if ctx_purchase_intent ctx > 0.7 \<and> ctx_trust_level ctx > 0.6 \<and>
              length (questions_asked ctx) > 3 then CLOSING
      else if length (remdups (topics_discussed ctx)) \<ge> 3 \<and>
              list_ex (\<lambda>topic. topic \<in> set (topics_discussed ctx))
                [''genre'', ''author'', ''fiction'', ''non-fiction''] then PRESENTATION
      else if length (questions_asked ctx) < 3 then DISCOVERY
      else PRESENTATION)"


text \<open>Contexts used as concrete inputs, and the four topics the third rule looks for.\<close>

definition repeated_topic_context :: ConversationContext where
  "repeated_topic_context = new_context\<lparr> topics_discussed := [''genre'', ''genre'', ''genre''] \<rparr>"

definition discovery_topics :: "string set" where
  "discovery_topics = {''genre'', ''author'', ''fiction'', ''non-fiction''}"

definition closing_context :: ConversationContext where
  "closing_context = new_context\<lparr> ctx_purchase_intent := 0.9, ctx_trust_level := 0.9,
      ctx_objection_level := 0.1, questions_asked := [''a'', ''b'', ''c'', ''d'', ''e''] \<rparr>"


section \<open>Call summary aggregator (core/call\_summary\_generator.py)\<close>

text \<open>
  A transcript entry, with the keys the code reads (the fields carry the prefix \<open>t_\<close>).
  The same shape serves \<open>TranscriptItem\<close> of the order-field extractor.
\<close>

record TranscriptItem =
  t_role :: string
  t_message :: string
  t_timestamp :: real

text \<open>The keys of the order snapshot that \<open>generate_summary\<close> reads; \<open>None\<close> is a missing
  key or a null value.\<close>

record order_snapshot =
  od_customer_name :: "string option"
  od_customer_id :: "string option"
  od_book_title :: "string option"
  od_order_status :: "string option"
  od_total_amount :: "real option"

record objection =
  o_type :: string
  o_keyword :: string
  o_message :: string
  o_timestamp :: real

record addressed_concern =
  a_objection_type :: string
  a_objection :: string
  a_response :: string
  a_addressed :: bool

text \<open>
  The part of \<open>CallSummary\<close> that depends on the timestamps, on the outcome and on the
  objections. An instant is given as its POSIX timestamp.
\<close>

record CallSummary =
  call_duration_seconds :: real
  total_messages :: nat
  customer_messages :: nat
  agent_messages :: nat
  call_outcome :: string
  order_placed :: bool
  order_value :: "real option"
  objections_raised :: "objection list"
  concerns_addressed :: "addressed_concern list"
  unresolved_concerns :: "string list"
  customer_satisfaction :: "real option"
  call_timestamp :: "real option"

definition summary_objection_keywords :: "string list" where
  "summary_objection_keywords =
     [''expensive'', ''cost'', ''price'', ''afford'', ''budget'',
      ''not sure'', ''don't know'', ''maybe'', ''think about'',
      ''later'', ''busy'', ''no time'', ''already have'',
      ''don't need'', ''not interested'', ''concern'', ''worried'']"

definition categorize_objection :: "string \<Rightarrow> string" where
  "categorize_objection keyword =
     (if keyword \<in> set [''expensive'', ''cost'', ''price'', ''afford'', ''budget''] then ''price''
      else if keyword \<in> set [''not sure'', ''don't know'', ''maybe'', ''think about'']
        then ''uncertainty''
      else if keyword \<in> set [''later'', ''busy'', ''no time''] then ''timing''
      else if keyword \<in> set [''already have'', ''don't need'', ''not interested''] then ''need''
      else ''general_concern'')"

text \<open>One objection per customer message at most: the loop over the keywords stops at the
  first keyword found in the lower-cased message.\<close>

definition extract_objections :: "TranscriptItem list \<Rightarrow> objection list" where
  "extract_objections customer_msgs =
     concat (map (\<lambda>msg.
        case find (contains (lower (t_message msg))) summary_objection_keywords of
          None \<Rightarrow> []
        | Some keyword \<Rightarrow>
            [\<lparr> o_type = categorize_objection keyword, o_keyword = keyword,
               o_message = take 200 (t_message msg), o_timestamp = t_timestamp msg \<rparr>])
       customer_msgs)"

text \<open>\<open>next((i for i, t in enumerate(xs) if P t), -1)\<close>, with \<open>None\<close> for \<open>-1\<close>.\<close>

fun first_index :: "('a \<Rightarrow> bool) \<Rightarrow> 'a list \<Rightarrow> nat option" where
  "first_index P [] = None"
| "first_index P (x # xs) =
     (if P x then Some 0 else (case first_index P xs of None \<Rightarrow> None | Some i \<Rightarrow> Some (Suc i)))"

definition identify_addressed_concerns ::
  "TranscriptItem list \<Rightarrow> objection list \<Rightarrow> addressed_concern list" where
  "identify_addressed_concerns all_transcripts objections =
     concat (map (\<lambda>obj.
        case first_index (\<lambda>t. t_message t = o_message obj) all_transcripts of
          None \<Rightarrow> []
        | Some objection_idx \<Rightarrow>
            if objection_idx + 1 < length all_transcripts
            then (let agent_response = all_transcripts ! (objection_idx + 1) in
                  if t_role agent_response = ''assistant''
                  then [\<lparr> a_objection_type = o_type obj,
                          a_objection = take 100 (o_message obj),
                          a_response = take 200 (t_message agent_response),
                          a_addressed = True \<rparr>]
                  else [])
            else [])
       objections)"

text \<open>The result is \<open>list(set(unresolved))\<close>: duplicates removed, in no specified order;
  the model keeps the first occurrences in order.\<close>

definition identify_unresolved_concerns ::
  "objection list \<Rightarrow> addressed_concern list \<Rightarrow> string list" where
  "identify_unresolved_concerns objections addressed =
     (let addressed_types = set (map a_objection_type addressed) in
      remdups (map (\<lambda>obj. o_type obj @ '': '' @ o_keyword obj)
                 (filter (\<lambda>obj. o_type obj \<notin> addressed_types) objections)))"

definition estimate_satisfaction :: "string \<Rightarrow> real option" where
  "estimate_satisfaction outcome =
     (if outcome = ''success'' then Some 0.8
      else if outcome = ''partial_success'' then Some 0.6
      else Some 0.5)"

text \<open>
  \<open>datetime.fromtimestamp\<close> gives the instant when its year is one of 1 to 9999, and
  raises otherwise (\<open>ValueError\<close>; for a value the C library cannot take the exception is
  \<open>OverflowError\<close> or \<open>OSError\<close>, which \<open>ValueError\<close> stands for here). The bounds are
  those of a process whose local time is UTC: the first second of the year 1 and of the
  year 10000.
\<close>

definition in_datetime_range :: "real \<Rightarrow> bool" where
  "in_datetime_range ts = (- 62135596800 \<le> ts \<and> ts < 253402300800)"

definition fromtimestamp :: "real \<Rightarrow> error + real" where
  "fromtimestamp ts = (if in_datetime_range ts then Inr ts else Inl ValueError)"

text \<open>
  \<open>generate_summary\<close>, for the fields above. The order snapshot is \<open>None\<close> when the
  argument is \<open>None\<close> or an empty dictionary. The exception handler of the source logs and
  raises again, so an exception of the body is the result.
\<close>

definition generate_summary ::
  "TranscriptItem list \<Rightarrow> order_snapshot option \<Rightarrow> error + CallSummary" where
  "generate_summary transcripts order_data =
     (let customer_msgs = filter (\<lambda>t. t_role t = ''user'') transcripts;
          agent_msgs = filter (\<lambda>t. t_role t = ''assistant'') transcripts;
          call_duration = (if transcripts \<noteq> []
                           then t_timestamp (last transcripts) - t_timestamp (hd transcripts)
                           else 0);
          confirmed = (case order_data of
                         None \<Rightarrow> False
                       | Some od \<Rightarrow> od_order_status od \<notin> set [Some ''draft'', None]);
          has_title = (case order_data of
                         None \<Rightarrow> False
                       | Some od \<Rightarrow> (case od_book_title od of None \<Rightarrow> False | Some t \<Rightarrow> t \<noteq> []));
          outcome = (if confirmed then ''success''
                     else if has_title then ''partial_success''
                     else ''information_only'');
          raised = extract_objections customer_msgs;
          addressed = identify_addressed_concerns transcripts raised
      in bind_err (if transcripts \<noteq> [] \<and> t_timestamp (hd transcripts) \<noteq> 0
                   then bind_err (fromtimestamp (t_timestamp (hd transcripts)))
                          (\<lambda>instant. Inr (Some instant))
                   else Inr None) (\<lambda>started.
           Inr \<lparr> call_duration_seconds = call_duration,
                 total_messages = length transcripts,
                 customer_messages = length customer_msgs,
                 agent_messages = length agent_msgs,
                 call_outcome = outcome,
                 order_placed = confirmed,
                 order_value = (if confirmed
                                then (case order_data of None \<Rightarrow> None | Some od \<Rightarrow> od_total_amount od)
                                else None),
                 objections_raised = raised,
                 concerns_addressed = addressed,
                 unresolved_concerns = identify_unresolved_concerns raised addressed,
                 customer_satisfaction = estimate_satisfaction outcome,
                 call_timestamp = started \<rparr>))"



text \<open>C8 in its own words: the message at index \<open>i\<close> of the transcript is immediately
  followed by an assistant message.\<close>

definition followed_by_assistant :: "TranscriptItem list \<Rightarrow> nat \<Rightarrow> bool" where
  "followed_by_assistant transcripts i =
     (i + 1 < length transcripts \<and> t_role (transcripts ! (i + 1)) = ''assistant'')"

definition entry :: "string \<Rightarrow> string \<Rightarrow> real \<Rightarrow> TranscriptItem" where
  "entry r m ts = \<lparr> t_role = r, t_message = m, t_timestamp = ts \<rparr>"

definition repeated_objection_call :: "TranscriptItem list" where
  "repeated_objection_call =
     [entry ''user'' ''maybe'' 1,
      entry ''assistant'' ''Take your time, I can tell you more about it.'' 2,
      entry ''user'' ''maybe'' 3]"

definition long_objection_call :: "TranscriptItem list" where
  "long_objection_call =
     [entry ''user'' (''that is too expensive'' @ replicate 200 CHR ''!'') 1,
      entry ''assistant'' ''I understand, let me show you the paperback.'' 2]"



section \<open>Order-field extractor (main.py, \<open>extract_order_data\<close>)\<close>

subsection \<open>Regular expressions\<close>

text \<open>
  The patterns of \<open>extract_order_data\<close> are written in the abstract syntax below and
  matched by a backtracking matcher that lists the ways a pattern can match at a position
  in the order in which \<open>re\<close> tries them (alternatives left to right, a greedy repetition
  longest first, a lazy one shortest first); \<open>re.search\<close> takes the first way at the
  leftmost position that has one. Character classes are on code points below 256.
\<close>

definition upper_char :: "char \<Rightarrow> char" where
  "upper_char c = (let n = code c in
     if (97 \<le> n \<and> n \<le> 122) \<or> (224 \<le> n \<and> n \<le> 254 \<and> n \<noteq> 247)
     then char_of (n - 32) else c)"

definition is_digit :: "char \<Rightarrow> bool" where
  "is_digit c = (let n = code c in 48 \<le> n \<and> n \<le> 57)"

definition is_word :: "char \<Rightarrow> bool" where
  "is_word c = (let n = code c in
     (48 \<le> n \<and> n \<le> 57) \<or> (65 \<le> n \<and> n \<le> 90) \<or> n = 95 \<or> (97 \<le> n \<and> n \<le> 122) \<or>
     n = 170 \<or> n = 178 \<or> n = 179 \<or> n = 181 \<or> n = 185 \<or> n = 186 \<or>
     (188 \<le> n \<and> n \<le> 190) \<or> (192 \<le> n \<and> n \<le> 214) \<or> (216 \<le> n \<and> n \<le> 246) \<or>
     248 \<le> n)"

text \<open>The members of a character class: a character, a range, \<open>\s\<close>, \<open>\d\<close>.\<close>

datatype citem = Ch char | Rng char char | Space | Digit

fun in_item :: "citem \<Rightarrow> char \<Rightarrow> bool" where
  "in_item (Ch c) x = (x = c)"
| "in_item (Rng a b) x = (code a \<le> code x \<and> code x \<le> code b)"
| "in_item Space x = is_space x"
| "in_item Digit x = is_digit x"

text \<open>\<open>ic\<close> is the flag \<open>(?i)\<close>: a character matches when it or its other case does.\<close>

definition in_class :: "bool \<Rightarrow> citem list \<Rightarrow> char \<Rightarrow> bool" where
  "in_class ic items x =
     list_ex (\<lambda>it. in_item it x \<or> (ic \<and> (in_item it (lower_char x) \<or> in_item it (upper_char x))))
       items"

text \<open>
  \<open>Set\<close> is a class \<open>[...]\<close> (a single character is the class of it), \<open>NSet\<close> a negated
  class \<open>[^...]\<close>, \<open>Rep lo hi greedy r\<close> the repetition \<open>r{lo,hi}\<close> (\<open>hi = None\<close>: no upper
  bound), \<open>Group i r\<close> the capturing group number \<open>i\<close>, \<open>WordB\<close> is \<open>\b\<close> and \<open>Eol\<close> is
  \<open>$\<close>.
\<close>

datatype regex =
    Set "citem list"
  | NSet "citem list"
  | Eps
  | Seq regex regex
  | Alt regex regex
  | Rep nat "nat option" bool regex
  | Group nat regex
  | WordB
  | Eol

text \<open>A position of the matcher: the character before it, the rest of the text, and the
  groups captured so far.\<close>

type_synonym mstate = "char option \<times> string \<times> (nat \<Rightarrow> string option)"

primrec iter ::
  "(mstate \<Rightarrow> mstate list) \<Rightarrow> bool \<Rightarrow> nat \<Rightarrow> nat \<Rightarrow> mstate \<Rightarrow> mstate list" where
  "iter f greedy 0 lo st = (if lo = 0 then [st] else [])"
| "iter f greedy (Suc hi) lo st =
     (let more = concat (map (iter f greedy hi (lo - 1)) (f st));
          stop = (if lo = 0 then [st] else [])
      in if greedy then more @ stop else stop @ more)"

definition word_before :: "char option \<Rightarrow> bool" where
  "word_before p = (case p of None \<Rightarrow> False | Some c \<Rightarrow> is_word c)"

definition word_after :: "string \<Rightarrow> bool" where
  "word_after s = (case s of [] \<Rightarrow> False | c # cs \<Rightarrow> is_word c)"

text \<open>
  An unbounded repetition is cut at the length of the rest of the text (plus the lower
  bound): every repeated pattern of this file consumes a character per round.
\<close>

fun ms :: "bool \<Rightarrow> regex \<Rightarrow> mstate \<Rightarrow> mstate list" where
  "ms ic (Set items) (p, s, c) =
     (case s of [] \<Rightarrow> [] | x # xs \<Rightarrow> if in_class ic items x then [(Some x, xs, c)] else [])"
| "ms ic (NSet items) (p, s, c) =
     (case s of [] \<Rightarrow> [] | x # xs \<Rightarrow> if in_class ic items x then [] else [(Some x, xs, c)])"
| "ms ic Eps st = [st]"
| "ms ic (Seq a b) st = concat (map (ms ic b) (ms ic a st))"
| "ms ic (Alt a b) st = ms ic a st @ ms ic b st"
| "ms ic (Rep lo hi greedy r) (p, s, c) =
     iter (ms ic r) greedy (case hi of None \<Rightarrow> lo + length s | Some h \<Rightarrow> h) lo (p, s, c)"
| "ms ic (Group i r) (p, s, c) =
     map (\<lambda>(p', s', c'). (p', s', c'(i := Some (take (length s - length s') s))))
       (ms ic r (p, s, c))"
| "ms ic WordB (p, s, c) = (if word_before p \<noteq> word_after s then [(p, s, c)] else [])"
| "ms ic Eol (p, s, c) = (if s = [] \<or> s = [CHR 0x0A] then [(p, s, c)] else [])"

fun ngroups_of :: "regex \<Rightarrow> nat" where
  "ngroups_of (Seq a b) = max (ngroups_of a) (ngroups_of b)"
| "ngroups_of (Alt a b) = max (ngroups_of a) (ngroups_of b)"
| "ngroups_of (Rep lo hi g r) = ngroups_of r"
| "ngroups_of (Group i r) = max i (ngroups_of r)"
| "ngroups_of r = 0"

text \<open>A match object: the number of groups of the pattern and what each captured
  (\<open>None\<close> for a group that took no part in the match).\<close>

record match =
  ngroups :: nat
  groups :: "nat \<Rightarrow> string option"

fun search_from ::
  "bool \<Rightarrow> regex \<Rightarrow> char option \<Rightarrow> string \<Rightarrow> (nat \<Rightarrow> string option) option" where
  "search_from ic r p [] =
     (case ms ic r (p, [], (\<lambda>i. None)) of [] \<Rightarrow> None | (p', s', c') # rest \<Rightarrow> Some c')"
| "search_from ic r p (x # xs) =
     (case ms ic r (p, x # xs, (\<lambda>i. None)) of
        [] \<Rightarrow> search_from ic r (Some x) xs
      | (p', s', c') # rest \<Rightarrow> Some c')"

text \<open>A pattern is its flag \<open>(?i)\<close> and its expression.\<close>

type_synonym pattern = "bool \<times> regex"

definition re_search :: "pattern \<Rightarrow> string \<Rightarrow> match option" where
  "re_search pat s =
     (case search_from (fst pat) (snd pat) None s of
        None \<Rightarrow> None
      | Some c \<Rightarrow> Some \<lparr> ngroups = ngroups_of (snd pat), groups = c \<rparr>)"

text \<open>\<open>m.group(n)\<close>: an \<open>IndexError\<close> when the pattern has no such group.\<close>

definition group :: "match \<Rightarrow> nat \<Rightarrow> error + string option" where
  "group m n = (if n > ngroups m then Inl IndexError else Inr (groups m n))"

text \<open>The loop \<open>for pattern in patterns: m = re.search(pattern, text); if m: break\<close>.\<close>

fun first_match :: "pattern list \<Rightarrow> string \<Rightarrow> match option" where
  "first_match [] s = None"
| "first_match (pat # pats) s =
     (case re_search pat s of None \<Rightarrow> first_match pats s | Some m \<Rightarrow> Some m)"

subsection \<open>Notation for patterns\<close>

definition cat :: "regex list \<Rightarrow> regex" where
  "cat rs = foldr Seq rs Eps"

fun alts :: "regex list \<Rightarrow> regex" where
  "alts [] = Set []"
| "alts [r] = r"
| "alts (r # rs) = Alt r (alts rs)"

definition lit :: "string \<Rightarrow> regex" where
  "lit s = cat (map (\<lambda>c. Set [Ch c]) s)"

definition rep0 :: "regex \<Rightarrow> regex" where
  "rep0 r = Rep 0 None True r"

definition rep1 :: "regex \<Rightarrow> regex" where
  "rep1 r = Rep 1 None True r"

definition opt :: "regex \<Rightarrow> regex" where
  "opt r = Rep 0 (Some 1) True r"

text \<open>\<open>\s*\<close>, \<open>\s+\<close>, \<open>[:\-]\<close>, \<open>[:\-]?\<close> and the newline.\<close>

definition ws0 :: regex where
  "ws0 = rep0 (Set [Space])"

definition ws1 :: regex where
  "ws1 = rep1 (Set [Space])"

definition sep :: regex where
  "sep = Set [Ch CHR '':'', Ch CHR ''-'']"

definition sep_opt :: regex where
  "sep_opt = opt sep"

definition newline :: char where
  "newline = CHR 0x0A"

text \<open>\<open>[a-zA-Z][a-zA-Z\s']{2,40}\<close>\<close>

definition letters :: "citem list" where
  "letters = [Rng CHR ''a'' CHR ''z'', Rng CHR ''A'' CHR ''Z'']"

definition name_chars :: regex where
  "name_chars = cat [Set letters, Rep 2 (Some 40) True (Set (letters @ [Space, Ch (CHR 0x27)]))]"

text \<open>\<open>[A-Z][a-z]+(?:\s+[A-Z][a-z]+)*\<close>\<close>

definition cap_word :: regex where
  "cap_word = cat [Set [Rng CHR ''A'' CHR ''Z''], rep1 (Set [Rng CHR ''a'' CHR ''z''])]"

definition cap_words :: regex where
  "cap_words = cat [cap_word, rep0 (cat [ws1, cap_word])]"

text \<open>\<open>[a-zA-Z][^\n]{1,80}?\<close> and the end \<open>(?:\s*by\s|\s*author|\.|,|$)\<close> of a title.\<close>

definition title_chars :: regex where
  "title_chars = cat [Set letters, Rep 1 (Some 80) False (NSet [Ch newline])]"

definition title_end :: regex where
  "title_end = alts [cat [ws0, lit ''by'', Set [Space]], cat [ws0, lit ''author''],
                     lit ''.'', lit '','', Eol]"

text \<open>\<open>copies?\<close> and its like.\<close>

definition plural :: "string \<Rightarrow> regex" where
  "plural w = cat [lit w, opt (lit ''s'')]"

definition copies :: regex where
  "copies = cat [lit ''copie'', opt (lit ''s'')]"

text \<open>\<open>\b\d{1,3}\b\<close>\<close>

definition number :: regex where
  "number = cat [WordB, Rep 1 (Some 3) True (Set [Digit]), WordB]"

definition number_words :: regex where
  "number_words = alts [lit ''one'', lit ''two'', lit ''three'', lit ''four'', lit ''five'',
                        lit ''six'', lit ''seven'', lit ''eight'', lit ''nine'', lit ''ten'']"

subsection \<open>The patterns, in the order of the source\<close>

definition name_patterns :: "pattern list" where
  "name_patterns =
     [(True, cat [alts [cat [lit ''customer'', ws0, lit ''name'', ws0, sep, ws0],
                        cat [lit ''my'', ws1, lit ''name'', ws1, lit ''is'', ws1],
                        cat [lit ''i'', ws1, lit ''am'', ws1],
                        cat [lit ''this'', ws1, lit ''is'', ws1],
                        cat [lit ''call'', ws1, lit ''me'', ws1]],
                  Group 1 name_chars]),
      (True, cat [opt (alts [cat [lit ''hello'', ws1],
                             cat [lit ''hi'', ws1],
                             cat [lit ''good'', ws1,
                                  alts [lit ''morning'', lit ''afternoon'', lit ''evening''],
                                  ws1]]),
                  Group 1 cap_words, opt (lit '','')]),
      (True, cat [alts [cat [lit ''speaking'', ws1, lit ''with'', ws1],
                        cat [lit ''talking'', ws1, lit ''to'', ws1]],
                  Group 1 name_chars])]"

definition number_opt :: regex where
  "number_opt = opt (cat [ws0, lit ''number''])"

definition customer_id_pattern :: pattern where
  "customer_id_pattern =
     (True, cat [alts [cat [lit ''id'', ws0, sep_opt, ws0],
                       cat [lit ''contact'', number_opt, ws0, sep_opt, ws0],
                       cat [lit ''phone'', number_opt, ws0, sep_opt, ws0],
                       cat [lit ''mobile'', number_opt, ws0, sep_opt, ws0]],
                 Group 1 (Rep 6 (Some 20) True (Set [Digit, Ch CHR ''-'', Space]))])"

definition quotes :: "citem list" where
  "quotes = [Ch (CHR 0x27), Ch (CHR 0x27), Ch (CHR 0x22)]"

definition title_patterns :: "pattern list" where
  "title_patterns =
     [(False, cat [Set quotes,
                   Group 1 (cat [NSet quotes, Rep 1 (Some 80) True (NSet [Ch newline])]),
                   Set quotes]),
      (True, cat [cat [lit ''book'', ws0, alts [lit ''is'', lit ''title'', lit ''called''],
                       ws0, sep_opt, ws0],
                  Group 1 title_chars, title_end]),
      (True, cat [alts [cat [lit ''looking'', ws1, lit ''for'', ws1],
                        cat [lit ''want'', ws1, opt (cat [lit ''the'', ws1]), lit ''book'', ws1],
                        cat [lit ''interested'', ws1, lit ''in'', ws1]],
                  Group 1 title_chars, title_end]),
      (True, cat [alts [cat [lit ''recommend'', ws1], cat [lit ''suggest'', ws1]],
                  Group 1 title_chars, title_end]),
      (True, cat [alts [cat [lit ''have'', ws1, lit ''you'', ws1, lit ''read'', ws1],
                        cat [lit ''what'', ws1, lit ''about'', ws1]],
                  Group 1 title_chars,
                  alts [cat [ws0, lit ''by'', Set [Space]], cat [ws0, lit ''author''],
                        lit ''.'', lit '','', lit ''?'', Eol]])]"

definition author_patterns :: "pattern list" where
  "author_patterns =
     [(True, cat [alts [cat [lit ''author'', ws0, sep_opt, ws0],
                        cat [lit ''by'', ws1],
                        cat [lit ''written'', ws0, lit ''by'', ws0]],
                  Group 1 name_chars]),
      (True, cat [Group 1 cap_words, Set [Ch (CHR 0x27)], lit ''s'', ws1,
                  alts [lit ''book'', lit ''novel'', lit ''work'']]),
      (True, cat [cat [lit ''from'', ws1, lit ''author'', ws1], Group 1 name_chars])]"

definition genre_pattern :: pattern where
  "genre_pattern =
     (True, cat [alts [cat [lit ''genre'', ws0, sep_opt, ws0],
                       cat [lit ''category'', ws0, sep_opt, ws0]],
                 Group 1 (alts [lit ''fiction'', lit ''non-fiction'', lit ''mystery'',
                                lit ''romance'', lit ''thriller'', lit ''sci-fi'', lit ''fantasy'',
                                lit ''biography'', lit ''history'', lit ''self-help'',
                                lit ''business'', lit ''children'', lit ''young-adult''])])"

definition qty_patterns :: "pattern list" where
  "qty_patterns =
     [(True, cat [alts [cat [lit ''quantity'', ws0, sep_opt, ws0],
                        cat [lit ''need'', ws1], cat [lit ''want'', ws1], cat [lit ''order'', ws1]],
                  Group 1 number, ws0,
                  alts [copies, plural ''unit'', plural ''book'', plural ''piece'']]),
      (True, cat [Group 1 number, ws0,
                  alts [copies, plural ''unit'', plural ''book'', plural ''piece''], ws0,
                  alts [lit ''of'', lit ''please'']]),
      (True, cat [alts [lit ''buy'', lit ''purchase'', lit ''get''], ws1,
                  Group 1 number, ws0, alts [copies, plural ''unit'', plural ''book'']]),
      (True, cat [number_words, ws1, alts [copies, plural ''book'']])]"

definition word_qty_pattern :: pattern where
  "word_qty_pattern =
     (True, cat [WordB, Group 1 number_words, WordB, ws0, alts [copies, plural ''book'']])"

definition word_to_num :: "string \<Rightarrow> string option" where
  "word_to_num = map_of
     [(''one'', ''1''), (''two'', ''2''), (''three'', ''3''), (''four'', ''4''), (''five'', ''5''),
      (''six'', ''6''), (''seven'', ''7''), (''eight'', ''8''), (''nine'', ''9''), (''ten'', ''10'')]"

definition pay_patterns :: "pattern list" where
  "pay_patterns =
     [(True, cat [alts [cat [lit ''payment'', ws0, opt (alts [lit ''method'', lit ''option'']),
                             ws0, sep_opt, ws0],
                        cat [lit ''pay'', ws0, alts [lit ''by'', lit ''with'', lit ''using''], ws0],
                        cat [lit ''paying'', ws0, alts [lit ''by'', lit ''with''], ws0]],
                  Group 1 (alts [lit ''online'', lit ''card'',
                                 cat [lit ''credit'', ws0, lit ''card''],
                                 cat [lit ''debit'', ws0, lit ''card''],
                                 cat [lit ''cash'',
                                      opt (cat [ws0, lit ''on'', ws0, lit ''delivery''])],
                                 lit ''cod'', lit ''upi'', lit ''netbanking'', lit ''paypal'',
                                 lit ''gpay'', lit ''phonepe'', lit ''paytm''])]),
      (True, cat [WordB,
                  Group 1 (alts [cat [lit ''credit'', ws0, lit ''card''],
                                 cat [lit ''debit'', ws0, lit ''card''],
                                 lit ''cash'', lit ''upi'', lit ''netbanking'', lit ''paypal'',
                                 lit ''gpay'', lit ''phonepe'', lit ''paytm'', lit ''cod'']),
                  WordB]),
      (True, cat [alts [cat [lit ''accept'', ws1], cat [lit ''take'', ws1]],
                  Group 1 (alts [cat [lit ''credit'', ws0, lit ''card''],
                                 cat [lit ''debit'', ws0, lit ''card''],
                                 lit ''cash'', lit ''upi'',
                                 cat [lit ''digital'', ws0, lit ''payment'']])])]"

definition delivery_patterns :: "(string \<times> pattern list) list" where
  "delivery_patterns =
     [(''store_pickup'',
         [(True, alts [lit ''pickup'', cat [lit ''pick'', ws0, lit ''up''],
                       cat [lit ''store'', ws0, lit ''pickup''], lit ''collect'',
                       cat [lit ''come'', ws0, lit ''and'', ws0, lit ''get'']])]),
      (''home_delivery'',
         [(True, alts [cat [lit ''home'', ws0, lit ''delivery''],
                       cat [lit ''deliver'', ws0, lit ''to'', ws0, lit ''home''],
                       cat [lit ''home'', ws0, lit ''address''],
                       cat [lit ''ship'', ws0, lit ''to'', ws0, lit ''home'']])]),
      (''express_delivery'',
         [(True, alts [lit ''express'', lit ''fast'', lit ''urgent'',
                       cat [lit ''quick'', ws0, lit ''delivery''],
                       cat [lit ''same'', ws0, lit ''day'']])])]"

definition line_chars :: "nat \<Rightarrow> nat \<Rightarrow> regex" where
  "line_chars lo hi = Rep lo (Some hi) True (NSet [Ch newline])"

definition address_patterns :: "pattern list" where
  "address_patterns =
     [(True, cat [alts [cat [lit ''address'', ws0, sep_opt, ws0],
                        cat [lit ''deliver'', ws0, lit ''to'', ws0],
                        cat [lit ''ship'', ws0, lit ''to'', ws0],
                        cat [lit ''my'', ws0, lit ''address'', ws0, lit ''is'', ws0]],
                  Group 1 (line_chars 10 120)]),
      (True, cat [alts [cat [lit ''live'', ws0, alts [lit ''at'', lit ''in''], ws0],
                        cat [lit ''staying'', ws0, alts [lit ''at'', lit ''in''], ws0]],
                  Group 1 (line_chars 10 120)])]"

definition special_patterns :: "pattern list" where
  "special_patterns =
     [(True, cat [alts [cat [lit ''special'', ws0, lit ''request'', ws0, sep_opt, ws0],
                        cat [lit ''note'', ws0, sep_opt, ws0],
                        cat [lit ''instruction'', ws0, sep_opt, ws0],
                        cat [lit ''please'', ws0, lit ''note'', ws0, sep_opt, ws0]],
                  Group 1 (line_chars 5 200)]),
      (True, cat [alts [cat [lit ''also'', ws0], cat [lit ''additionally'', ws0],
                        cat [lit ''by'', ws0, lit ''the'', ws0, lit ''way'', ws0],
                        cat [lit ''oh'', ws0, lit ''and'', ws0]],
                  Group 1 (line_chars 5 200)]),
      (True, cat [alts [cat [lit ''make'', ws0, lit ''sure'', ws0], cat [lit ''ensure'', ws0],
                        cat [lit ''remember'', ws0, lit ''to'', ws0]],
                  Group 1 (line_chars 5 200)])]"

subsection \<open>The extractor\<close>

record OrderData =
  order_id :: "string option"
  customer_id :: "string option"
  customer_name :: "string option"
  book_title :: "string option"
  author :: "string option"
  genre :: "string option"
  quantity :: "int option"
  unit_price :: "real option"
  total_amount :: "real option"
  payment_method :: "string option"
  delivery_option :: "string option"
  delivery_address :: "string option"
  order_status :: string
  order_date :: "string option"
  special_requests :: "string option"

text \<open>\<open>"\n".join(messages)\<close>\<close>

fun join_lines :: "string list \<Rightarrow> string" where
  "join_lines [] = []"
| "join_lines [m] = m"
| "join_lines (m # rest) = m @ [newline] @ join_lines rest"

text \<open>
  \<open>(m.group(1).strip() if m else None)\<close>: an \<open>IndexError\<close> when the pattern has no
  group 1, an \<open>AttributeError\<close> when the group took no part in the match (\<open>strip\<close> of
  \<open>None\<close>). The first argument is the string method applied: \<open>strip\<close> or \<open>lower\<close>.
\<close>

definition group1_with :: "(string \<Rightarrow> string) \<Rightarrow> match option \<Rightarrow> error + string option" where
  "group1_with f mo =
     (case mo of
        None \<Rightarrow> Inr None
      | Some m \<Rightarrow>
          (case group m 1 of
             Inl e \<Rightarrow> Inl e
           | Inr None \<Rightarrow> Inl AttributeError
           | Inr (Some g) \<Rightarrow> Inr (Some (f g))))"

definition truthy :: "string option \<Rightarrow> bool" where
  "truthy v = (case v of None \<Rightarrow> False | Some s \<Rightarrow> s \<noteq> [])"

text \<open>\<open>(title_match.group(1) or title_match.group(2) or "").strip()\<close>\<close>

definition title_of :: "match \<Rightarrow> error + string" where
  "title_of m =
     bind_err (group m 1) (\<lambda>g1.
       if truthy g1 then Inr (strip (the g1))
       else bind_err (group m 2) (\<lambda>g2.
         if truthy g2 then Inr (strip (the g2)) else Inr (strip [])))"

text \<open>\<open>int(s)\<close> on a string of decimal digits, which is all the quantity patterns and
  \<open>word_to_num\<close> deliver; \<open>None\<close> stands for the \<open>ValueError\<close> on any other string.\<close>

definition digit_value :: "char \<Rightarrow> int" where
  "digit_value c = int (code c) - 48"

definition py_int :: "string \<Rightarrow> int option" where
  "py_int s =
     (if s \<noteq> [] \<and> list_all is_digit s
      then Some (foldl (\<lambda>n c. 10 * n + digit_value c) 0 s)
      else None)"

text \<open>The quantity match: one of the four patterns, else the spelled-out number, whose
  mock match object answers every \<open>group(n)\<close> with the digits of the word (were the
  word missing, \<open>group\<close> would raise inside the \<open>try\<close> below, which gives no quantity
  just as a missing group does).\<close>

definition qty_match_of :: "string \<Rightarrow> match option" where
  "qty_match_of full_text =
     (case first_match qty_patterns full_text of
        Some m \<Rightarrow> Some m
      | None \<Rightarrow>
          (case re_search word_qty_pattern full_text of
             None \<Rightarrow> None
           | Some wm \<Rightarrow>
               Some \<lparr> ngroups = 1,
                      groups = (\<lambda>n. map_option
                                  (\<lambda>g. case word_to_num (lower g) of
                                         None \<Rightarrow> ''1'' | Some d \<Rightarrow> d)
                                  (groups wm 1)) \<rparr>))"

text \<open>\<open>try: quantity_val = int(qty_match.group(1)) except Exception: quantity_val = None\<close>\<close>

definition quantity_of :: "match option \<Rightarrow> int option" where
  "quantity_of mo =
     (case mo of
        None \<Rightarrow> None
      | Some m \<Rightarrow>
          (case group m 1 of
             Inl e \<Rightarrow> None
           | Inr None \<Rightarrow> None
           | Inr (Some g) \<Rightarrow> py_int g))"

text \<open>The first option of \<open>delivery_patterns\<close> one of whose patterns is found.\<close>

fun delivery_cue :: "(string \<times> pattern list) list \<Rightarrow> string \<Rightarrow> string option" where
  "delivery_cue [] full_text = None"
| "delivery_cue ((option, pats) # rest) full_text =
     (if first_match pats full_text \<noteq> None then Some option else delivery_cue rest full_text)"

definition extract_order_data :: "TranscriptItem list \<Rightarrow> error + OrderData" where
  "extract_order_data transcripts =
     (let full_text = join_lines (map t_message transcripts);
          name_match = first_match name_patterns full_text;
          customer_id_match = re_search customer_id_pattern full_text;
          title_match = first_match title_patterns full_text;
          author_match = first_match author_patterns full_text;
          genre_match = re_search genre_pattern full_text;
          qty_match = qty_match_of full_text;
          pay_match = first_match pay_patterns full_text;
          delivery_opt = (case delivery_cue delivery_patterns full_text of
                            None \<Rightarrow> ''home_delivery'' | Some option \<Rightarrow> option);
          special_requests_match = first_match special_patterns full_text;
          quantity_val = quantity_of qty_match;
          unit_price_val = 15.99;
          total = (case quantity_val of
                     None \<Rightarrow> None
                   | Some q \<Rightarrow> if q \<noteq> 0 then Some (real_of_int q * unit_price_val) else None)
      in
      bind_err (if delivery_opt = ''home_delivery''
                then group1_with strip (first_match address_patterns full_text)
                else Inr None) (\<lambda>address.
      bind_err (case title_match of
                  None \<Rightarrow> Inr None
                | Some m \<Rightarrow> bind_err (title_of m) (\<lambda>t. Inr (Some t))) (\<lambda>title.
      bind_err (group1_with strip customer_id_match) (\<lambda>cid.
      bind_err (group1_with strip name_match) (\<lambda>name.
      bind_err (group1_with strip author_match) (\<lambda>auth.
      bind_err (group1_with lower genre_match) (\<lambda>gen.
      bind_err (group1_with lower pay_match) (\<lambda>pay.
      bind_err (group1_with strip special_requests_match) (\<lambda>special.
        Inr \<lparr> order_id = None,
              customer_id = cid,
              customer_name = name,
              book_title = title,
              author = auth,
              genre = gen,
              quantity = quantity_val,
              unit_price = Some unit_price_val,
              total_amount = total,
              payment_method = pay,
              delivery_option = Some delivery_opt,
              delivery_address = address,
              order_status = ''draft'',
              order_date = None,
              special_requests = special \<rparr>)))))))))"

subsection \<open>What a pattern is sure to capture\<close>

text \<open>
  \<open>min_len r\<close> is a number of characters every match of \<open>r\<close> consumes, \<open>gids r\<close> lists
  the groups of \<open>r\<close>, and \<open>captures_nonempty i r\<close> is a syntactic check that every match
  of \<open>r\<close> leaves a non-empty text in group \<open>i\<close>: the group lies on every path through
  the pattern, its body consumes a character, and nothing after it sets the group again.
\<close>

fun min_len :: "regex \<Rightarrow> nat" where
  "min_len (Set items) = 1"
| "min_len (NSet items) = 1"
| "min_len Eps = 0"
| "min_len (Seq a b) = min_len a + min_len b"
| "min_len (Alt a b) = min (min_len a) (min_len b)"
| "min_len (Rep lo hi greedy r) = lo * min_len r"
| "min_len (Group i r) = min_len r"
| "min_len WordB = 0"
| "min_len Eol = 0"

fun gids :: "regex \<Rightarrow> nat list" where
  "gids (Seq a b) = gids a @ gids b"
| "gids (Alt a b) = gids a @ gids b"
| "gids (Rep lo hi greedy r) = gids r"
| "gids (Group i r) = i # gids r"
| "gids r = []"

fun captures_nonempty :: "nat \<Rightarrow> regex \<Rightarrow> bool" where
  "captures_nonempty i (Group j r) = (i = j \<and> 0 < min_len r)"
| "captures_nonempty i (Seq a b) =
     (if captures_nonempty i b then True else captures_nonempty i a \<and> i \<notin> set (gids b))"
| "captures_nonempty i (Alt a b) = (captures_nonempty i a \<and> captures_nonempty i b)"
| "captures_nonempty i r = False"

definition good_match :: "match \<Rightarrow> bool" where
  "good_match m = (1 \<le> ngroups m \<and> truthy (groups m 1))"

definition all_capture :: "pattern list \<Rightarrow> bool" where
  "all_capture pats = list_all (\<lambda>pat. captures_nonempty 1 (snd pat)) pats"

definition full_text_of :: "TranscriptItem list \<Rightarrow> string" where
  "full_text_of transcripts = join_lines (map t_message transcripts)"

text \<open>\<open>f\<close> applied to group 1 of a match, when there is a match.\<close>

definition group1_of :: "(string \<Rightarrow> string) \<Rightarrow> match option \<Rightarrow> string option" where
  "group1_of f mo = (case mo of None \<Rightarrow> None | Some m \<Rightarrow> Some (f (the (groups m 1))))"

text \<open>Transcripts used as concrete inputs.\<close>

definition priya_call :: "TranscriptItem list" where
  "priya_call = [entry ''user'' ''my name is Priya'' 1, entry ''user'' ''2 copies'' 2,
                 entry ''user'' ''pay by card'' 3]"

definition priya_please_call :: "TranscriptItem list" where
  "priya_please_call = [entry ''user'' ''my name is Priya'' 1,
                        entry ''user'' ''2 copies please'' 2,
                        entry ''user'' ''pay by card'' 3]"


section \<open>Properties of the sentiment scorer\<close>

subsection \<open>Helper lemmas\<close>

lemma strip_great: "strip ''great book'' = ''great book''"
  by (simp add: strip_def is_space_def code_def)


lemma history_of_store:
  "history_of (store_in_history h u s) uid =
     (if u = uid
      then (let l = history_of h uid @ [s] in if length l > 50 then drop (length l - 50) l else l)
      else history_of h uid)"
  by (simp add: history_of_def store_in_history_def Let_def)

lemma last_n_append: "last_n k (last_n k xs @ ys) = last_n k (xs @ ys)"
proof (cases "length xs \<le> k")
  case True
  then show ?thesis by (simp add: last_n_def)
next
  case False
  then have "length ys + (length xs - k) = length xs + length ys - k" by arith
  with False show ?thesis by (simp add: last_n_def)
qed

lemma history_of_store_last_n:
  "length (history_of h uid) \<le> 50 \<Longrightarrow>
   history_of (store_in_history h u s) uid =
     (if u = uid then last_n 50 (history_of h uid @ [s]) else history_of h uid)"
  by (simp add: history_of_store last_n_def Let_def)

lemma analyze_not_recorded:
  "\<not> records eng rep message \<Longrightarrow>
   analyze_message_sentiment eng rep message uid = (create_neutral_sentiment, eng)"
  by (auto simp: records_def analyze_message_sentiment_def Let_def split: sum.splits)

lemma analyze_recorded:
  "records eng rep message \<Longrightarrow>
   \<exists>s. analyze_message_sentiment eng rep message uid
         = (s, eng\<lparr>sentiment_history := store_in_history (sentiment_history eng) uid s\<rparr>)"
  by (auto simp: records_def analyze_message_sentiment_def Let_def split: sum.splits)

lemma analyze_all_history:
  "length (history_of (sentiment_history eng) uid) \<le> 50 \<Longrightarrow>
   history_of (sentiment_history (snd (analyze_all eng calls))) uid
     = last_n 50 (history_of (sentiment_history eng) uid
                  @ scores_for uid (fst (analyze_all eng calls)))"
proof (induction calls arbitrary: eng)
  case Nil
  then show ?case by (simp add: scores_for_def last_n_def)
next
  case (Cons c calls)
  obtain rep message u where c: "c = (rep, message, u)" by (cases c)
  show ?case
  proof (cases "records eng rep message")
    case False
    from analyze_not_recorded[OF False]
    have a: "analyze_message_sentiment eng rep message u = (create_neutral_sentiment, eng)" .
    from Cons.IH[OF Cons.prems] show ?thesis
      using c a False by (simp add: split_beta)
  next
    case True
    from analyze_recorded[OF True] obtain s where
      a: "analyze_message_sentiment eng rep message u
            = (s, eng\<lparr>sentiment_history := store_in_history (sentiment_history eng) u s\<rparr>)"
      by blast
    let ?eng = "eng\<lparr>sentiment_history := store_in_history (sentiment_history eng) u s\<rparr>"
    have h: "history_of (store_in_history (sentiment_history eng) u s) uid =
               (if u = uid then last_n 50 (history_of (sentiment_history eng) uid @ [s])
                else history_of (sentiment_history eng) uid)"
      by (rule history_of_store_last_n[OF Cons.prems])
    have l: "length (history_of (sentiment_history ?eng) uid) \<le> 50"
      using Cons.prems by (auto simp: history_of_store_last_n last_n_def)
    have f: "fst (analyze_all eng (c # calls)) = (u, s) # fst (analyze_all ?eng calls)"
      and e: "snd (analyze_all eng (c # calls)) = snd (analyze_all ?eng calls)"
      using c a True by (simp_all add: split_beta)
    show ?thesis
    proof (cases "u = uid")
      case False
      with Cons.IH[OF l] show ?thesis by (simp add: f e h scores_for_def)
    next
      case True
      have "history_of (sentiment_history (snd (analyze_all ?eng calls))) uid
              = last_n 50 (last_n 50 (history_of (sentiment_history eng) uid @ [s])
                           @ scores_for uid (fst (analyze_all ?eng calls)))"
        using Cons.IH[OF l] True h by simp
      also have "\<dots> = last_n 50 ((history_of (sentiment_history eng) uid @ [s])
                           @ scores_for uid (fst (analyze_all ?eng calls)))"
        by (rule last_n_append)
      finally show ?thesis using True by (simp add: f e scores_for_def)
    qed
  qed
qed

lemma result_in_range_error [simp]: "result_in_range error_dict"
  by (simp add: result_in_range_def error_dict_def num_in_def)
















subsection \<open>C1: combination of the polarity passes\<close>

text \<open>
  C1 says that the combined polarity and confidence are the weighted average of the
  present passes, the weights renormalised over the present passes. The source computes
  the plain sum of \<open>value * weight\<close> over the present passes and never divides by the sum
  of their weights. With only the two lexicon passes answering 0.8 each, the source
  returns 0.36 where the renormalised average is 0.8; with VADER alone answering 0.8 it
  returns 0.2 where a single pass should count with weight 1.
\<close>

theorem combine_not_renormalized:
  "polarity (fst (analyze_message_sentiment new_engine (lexicon_replies 0.8 0.8) ''great book'' ''room'')) = 0.36
   \<and> confidence (fst (analyze_message_sentiment new_engine (lexicon_replies 0.8 0.8) ''great book'' ''room'')) = 0.36
   \<and> spec_weighted_average [(0.8, 0.25), (0.8, 0.2)] = 0.8
   \<and> polarity (fst (analyze_message_sentiment new_engine (vader_only_replies 0.8) ''great book'' ''room'')) = 0.2
   \<and> spec_weighted_average [(0.8, 0.25)] = 0.8"
  by (simp add: analyze_message_sentiment_def strip_great combine_sentiment_results_def
      analyze_with_openai_def analyze_with_llama_def analyze_with_vader_def analyze_with_textblob_def
      new_engine_def lexicon_replies_def vader_only_replies_def error_dict_def process_result_def
      spec_weighted_average_def Let_def)

subsection \<open>C3: bounds of the score\<close>




subsection \<open>C4: the history keeps the 50 most recent scores\<close>

text \<open>
  C4: for every engine whose history of an id holds at most 50 entries (a new engine
  holds none), every id and every sequence of calls of \<open>analyze_message_sentiment\<close>, the
  history of the id after the calls holds at most 50 entries, and it is the history
  before the calls followed by the scores the calls recorded for the id, in arrival
  order, with all but the last 50 dropped: the oldest entries are the ones evicted. On a
  history of 50 scores, one more recorded score evicts the first and leaves the other 49
  in order, followed by the new one.
\<close>

theorem history_capped_fifo:
  "length (history_of (sentiment_history eng) uid) \<le> 50 \<Longrightarrow>
   length (history_of (sentiment_history (snd (analyze_all eng calls))) uid) \<le> 50 \<and>
   history_of (sentiment_history (snd (analyze_all eng calls))) uid
     = last_n 50 (history_of (sentiment_history eng) uid
                  @ scores_for uid (fst (analyze_all eng calls)))"
  by (simp add: analyze_all_history) (simp add: last_n_def)

theorem history_capped_fifo_witness:
  "length (history_of (sentiment_history full_engine) ''room'') = 50 \<and>
   history_of (sentiment_history (snd (analyze_all full_engine
       [(lexicon_replies 0.8 0.8, ''great book'', ''room'')]))) ''room''
     = map numbered_score [1..<50]
       @ [fst (analyze_message_sentiment full_engine (lexicon_replies 0.8 0.8)
                 ''great book'' ''room'')] \<and>
   polarity (fst (analyze_message_sentiment full_engine (lexicon_replies 0.8 0.8)
                 ''great book'' ''room'')) = 0.36"
proof -
  have h: "history_of (sentiment_history full_engine) ''room'' = map numbered_score [0..<50]"
    by (simp add: full_engine_def history_of_def)
  have r: "records full_engine (lexicon_replies 0.8 0.8) ''great book''"
    by (simp add: records_def strip_great combine_sentiment_results_def
      analyze_with_openai_def analyze_with_llama_def analyze_with_vader_def analyze_with_textblob_def
      new_engine_def full_engine_def lexicon_replies_def error_dict_def process_result_def Let_def)
  have p: "polarity (fst (analyze_message_sentiment full_engine (lexicon_replies 0.8 0.8)
                 ''great book'' ''room'')) = 0.36"
    by (simp add: analyze_message_sentiment_def strip_great combine_sentiment_results_def
      analyze_with_openai_def analyze_with_llama_def analyze_with_vader_def analyze_with_textblob_def
      new_engine_def full_engine_def lexicon_replies_def error_dict_def process_result_def Let_def)
  have d: "drop (Suc 0) (map numbered_score [0..<50]) = map numbered_score [1..<50]"
    by (simp add: drop_map)
  from history_capped_fifo [of full_engine "''room''"
         "[(lexicon_replies 0.8 0.8, ''great book'', ''room'')]"] h r p d
  show ?thesis by (simp add: scores_for_def last_n_def split_beta)
qed

subsection \<open>C10: the neutral score is never recorded\<close>

text \<open>
  C10: for an empty or whitespace-only message, and whenever the combination raises,
  \<open>analyze_message_sentiment\<close> returns the fixed neutral score and the engine is
  unchanged: nothing is appended to the history of any id.
\<close>

theorem neutral_score_leaves_history:
  "strip message = [] \<or>
   (\<exists>e. combine_sentiment_results
          (analyze_with_openai eng rep) (analyze_with_llama eng rep)
          (analyze_with_vader rep) (analyze_with_textblob rep)
          (analyze_emotions eng rep) (analyze_sales_context (strip message))
          (strip message) = Inl e) \<Longrightarrow>
   analyze_message_sentiment eng rep message uid = (create_neutral_sentiment, eng) \<and>
   sentiment_history (snd (analyze_message_sentiment eng rep message uid)) = sentiment_history eng"
  by (auto simp: analyze_message_sentiment_def Let_def)

theorem neutral_score_leaves_history_witness:
  "strip ''   '' = [] \<and>
   analyze_message_sentiment new_engine (lexicon_replies 0.8 0.8) ''   '' ''room''
     = (create_neutral_sentiment, new_engine) \<and>
   analyze_message_sentiment llm_engine (llm_replies (Dict [''polarity'' \<mapsto> JStr ''high'']))
       ''great book'' ''room''
     = (create_neutral_sentiment, llm_engine)"
proof -
  have h1: "strip ''   '' = []"
    by (simp add: strip_def is_space_def code_def)
  have h2: "\<exists>e. combine_sentiment_results
          (analyze_with_openai llm_engine (llm_replies (Dict [''polarity'' \<mapsto> JStr ''high''])))
          (analyze_with_llama llm_engine (llm_replies (Dict [''polarity'' \<mapsto> JStr ''high''])))
          (analyze_with_vader (llm_replies (Dict [''polarity'' \<mapsto> JStr ''high''])))
          (analyze_with_textblob (llm_replies (Dict [''polarity'' \<mapsto> JStr ''high''])))
          (analyze_emotions llm_engine (llm_replies (Dict [''polarity'' \<mapsto> JStr ''high''])))
          (analyze_sales_context (strip ''great book''))
          (strip ''great book'') = Inl e"
    by (simp add: combine_sentiment_results_def analyze_with_openai_def llm_engine_def
        new_engine_def llm_replies_def process_result_def)
  from neutral_score_leaves_history [of "''   ''" new_engine "lexicon_replies 0.8 0.8" "''room''"]
       neutral_score_leaves_history [of "''great book''" llm_engine
           "llm_replies (Dict [''polarity'' \<mapsto> JStr ''high''])" "''room''"]
       h1 h2
  show ?thesis by blast
qed

section \<open>Properties of the question generator\<close>

subsection \<open>Helper lemmas\<close>

lemma discovery_topic_ex:
  "list_ex (\<lambda>topic. topic \<in> set ts) [''genre'', ''author'', ''fiction'', ''non-fiction'']
     = (set ts \<inter> discovery_topics \<noteq> {})"
  by (auto simp: discovery_topics_def)

text \<open>On a context that has the declared types the stage is always determined, and it is
  the one the transition function gives.\<close>

lemma determine_stage_typed:
  "determine_stage (as_stored c) = Inr (determine_conversation_stage c)"
  by (auto simp: determine_stage_def determine_conversation_stage_def as_stored_def
      gt_float_def bind_err_def)

lemma questions_after_update:
  "cx_questions_asked (fst (update_conversation_context c h sd)) = cx_questions_asked c"
  by (simp add: update_conversation_context_def Let_def split: option.splits sum.splits)

text \<open>
  The \<open>except\<close> around the body of \<open>generate_question\<close>: a sentiment value that is no
  number makes the comparison in the transition function raise, and no question is
  returned, with or without a client.
\<close>

lemma null_sentiment_gives_no_question:
  "fst (generate_question (new_generator False) ''room'' []
          (Some [(''objection_level'', JNull)]) CallFailed ''20250101_120000'' 0) = None"
  by (simp add: generate_question_def new_generator_def update_conversation_context_def Let_def
      new_context_def as_stored_def determine_stage_def gt_float_def bind_err_def dict_get_def
      get_or_def last_n_def)


subsection \<open>C2: the stage transition function\<close>

text \<open>
  C2 as stated fails in its third rule: the source tests \<open>len(context.topics_discussed) > 2\<close>
  on a list that \<open>_update_conversation_context\<close> extends on every turn, so repeated topics
  count. Three mentions of the one topic genre, with no question asked yet, give
  \<open>presentation\<close>, where the claim (three distinct entries) gives \<open>discovery\<close>.
\<close>

theorem stage_distinct_topics_counterexample:
  "determine_conversation_stage repeated_topic_context = PRESENTATION \<and>
   stage_as_claimed repeated_topic_context = DISCOVERY \<and>
   card (set (topics_discussed repeated_topic_context)) = 1"
  by (simp add: determine_conversation_stage_def stage_as_claimed_def repeated_topic_context_def
      new_context_def)


text \<open>
  C2 as amended: objection level above 0.6 gives \<open>objection_handling\<close>; otherwise
  purchase intent above 0.7, trust above 0.6 and more than 3 questions asked give
  \<open>closing\<close>; otherwise at least 3 entries in \<open>topics_discussed\<close> (repetitions counted),
  one of them genre, author, fiction or non-fiction, give \<open>presentation\<close>; otherwise fewer
  than 3 questions asked give \<open>discovery\<close>; otherwise \<open>presentation\<close>. In particular
  objection level 0.8 always gives \<open>objection_handling\<close>, and purchase intent 0.9,
  trust 0.9, 5 questions asked and objection level 0.1 give \<open>closing\<close>.
\<close>

theorem stage_transition:
  "(ctx_objection_level c > 0.6 \<longrightarrow> determine_conversation_stage c = OBJECTION_HANDLING) \<and>
   (\<not> ctx_objection_level c > 0.6 \<and> ctx_purchase_intent c > 0.7 \<and> ctx_trust_level c > 0.6 \<and>
      length (questions_asked c) > 3 \<longrightarrow> determine_conversation_stage c = CLOSING) \<and>
   (\<not> ctx_objection_level c > 0.6 \<and>
      \<not> (ctx_purchase_intent c > 0.7 \<and> ctx_trust_level c > 0.6 \<and> length (questions_asked c) > 3) \<and>
      length (topics_discussed c) \<ge> 3 \<and> set (topics_discussed c) \<inter> discovery_topics \<noteq> {}
      \<longrightarrow> determine_conversation_stage c = PRESENTATION) \<and>
   (\<not> ctx_objection_level c > 0.6 \<and>
      \<not> (ctx_purchase_intent c > 0.7 \<and> ctx_trust_level c > 0.6 \<and> length (questions_asked c) > 3) \<and>
      \<not> (length (topics_discussed c) \<ge> 3 \<and> set (topics_discussed c) \<inter> discovery_topics \<noteq> {})
      \<longrightarrow> determine_conversation_stage c =
            (if length (questions_asked c) < 3 then DISCOVERY else PRESENTATION)) \<and>
   (ctx_objection_level c = 0.8 \<longrightarrow> determine_conversation_stage c = OBJECTION_HANDLING) \<and>
   (ctx_purchase_intent c = 0.9 \<and> ctx_trust_level c = 0.9 \<and> length (questions_asked c) = 5 \<and>
      ctx_objection_level c = 0.1 \<longrightarrow> determine_conversation_stage c = CLOSING)"
  unfolding determine_conversation_stage_def discovery_topic_ex
  by (auto simp: numeral_3_eq_3 Suc_le_eq)

theorem stage_transition_witness:
  "determine_conversation_stage (new_context\<lparr> ctx_objection_level := 0.8 \<rparr>) = OBJECTION_HANDLING \<and>
   determine_conversation_stage closing_context = CLOSING \<and>
   determine_conversation_stage repeated_topic_context = PRESENTATION \<and>
   determine_conversation_stage new_context = DISCOVERY"
  using stage_transition [of "new_context\<lparr> ctx_objection_level := 0.8 \<rparr>"]
    stage_transition [of closing_context]
    stage_transition [of repeated_topic_context]
    stage_transition [of new_context]
  by (simp add: new_context_def closing_context_def repeated_topic_context_def discovery_topics_def)


subsection \<open>C7: failure of the external text-generation pass\<close>

text \<open>
  C7 as stated fails: \<open>generate_question\<close> chooses between the external pass and the
  templates by \<open>if self.openai_client\<close> alone, and \<open>_generate_ai_question\<close> answers every
  exception with \<open>None\<close>. With a client configured and a failing call no question is
  returned, although the templates give one (the first discovery question) to the same
  call on a generator without a client.
\<close>

theorem ai_failure_counterexample:
  "fst (generate_question (new_generator True) ''room'' [] None CallFailed ''20250101_120000'' 0) = None \<and>
   map_option q_question_id
     (fst (generate_question (new_generator False) ''room'' [] None CallFailed ''20250101_120000'' 0))
     = Some ''DISC_001''"
  by (simp add: generate_question_def new_generator_def generate_ai_question_def build_ai_question_def
        generate_template_question_def update_conversation_context_def Let_def new_context_def
        as_stored_def determine_stage_def gt_float_def lt_float_def bind_err_def last_n_def
        is_question_suitable_def template_def)


text \<open>
  C7 as amended: whenever the external pass is configured and fails (the call raises, its
  output is no JSON object, or its \<open>question_type\<close> is not the value of a member of
  \<open>QuestionType\<close>), \<open>generate_question\<close> returns no question, and the list of questions
  asked that is held for the room is what it was before the call: there is no fallback
  to the templates.
\<close>

theorem ai_failure_gives_no_question:
  "gen_openai_client gen \<and> ai_pass_fails reply \<longrightarrow>
     fst (generate_question gen room h sd reply now pick) = None \<and>
     asked_in (snd (generate_question gen room h sd reply now pick)) room = asked_in gen room"
proof (intro impI)
  assume a: "gen_openai_client gen \<and> ai_pass_fails reply"
  then have ai: "generate_ai_question c now reply = None" for c
    by (auto simp: generate_ai_question_def build_ai_question_def ai_pass_fails_def
        split: ai_reply.splits sum.splits)
  define ctx0 where
    "ctx0 = (case conversation_contexts gen room of None \<Rightarrow> as_stored new_context | Some c \<Rightarrow> c)"
  obtain ctx raised where u: "update_conversation_context ctx0 h sd = (ctx, raised)"
    by (cases "update_conversation_context ctx0 h sd")
  have q: "cx_questions_asked ctx = asked_in gen room"
    using questions_after_update[of ctx0 h sd] u
    by (simp add: ctx0_def asked_in_def as_stored_def new_context_def split: option.splits)
  from a ai u q
  show "fst (generate_question gen room h sd reply now pick) = None \<and>
     asked_in (snd (generate_question gen room h sd reply now pick)) room = asked_in gen room"
    by (cases raised) (simp_all add: generate_question_def Let_def ctx0_def[symmetric] asked_in_def)
qed

theorem ai_failure_gives_no_question_witness:
  "ai_pass_fails (Object [''question_text'' \<mapsto> JStr ''Which genre?'',
                          ''question_type'' \<mapsto> JStr ''rhetorical'']) \<and>
   fst (generate_question (new_generator True) ''room'' [''I like crime novels''] None
        (Object [''question_text'' \<mapsto> JStr ''Which genre?'',
                 ''question_type'' \<mapsto> JStr ''rhetorical''])
        ''20250101_120000'' 0) = None \<and>
   asked_in (snd (generate_question (new_generator True) ''room'' [''I like crime novels''] None
        (Object [''question_text'' \<mapsto> JStr ''Which genre?'',
                 ''question_type'' \<mapsto> JStr ''rhetorical''])
        ''20250101_120000'' 0)) ''room'' = []"
proof -
  have h: "ai_pass_fails (Object [''question_text'' \<mapsto> JStr ''Which genre?'',
                                  ''question_type'' \<mapsto> JStr ''rhetorical''])"
    by (simp add: ai_pass_fails_def question_type_of_value_def question_type_of_def get_or_def)
  have g: "gen_openai_client (new_generator True)"
    "asked_in (new_generator True) ''room'' = []"
    by (simp_all add: new_generator_def asked_in_def)
  from ai_failure_gives_no_question [of "new_generator True"
        "Object [''question_text'' \<mapsto> JStr ''Which genre?'',
                 ''question_type'' \<mapsto> JStr ''rhetorical'']"
        "''room''" "[''I like crime novels'']" None "''20250101_120000''" 0]
       h g
  show ?thesis by simp
qed


section \<open>Properties of the call summary aggregator\<close>

subsection \<open>Helper lemmas\<close>





subsection \<open>C8: addressed objections\<close>

text \<open>
  C8 says an objection counts as addressed exactly when the customer message that raised
  it is immediately followed by an assistant message. The source looks the message up by
  its text: the first transcript entry whose message equals the objection's message
  truncated to 200 characters. So a repeated message is judged at its first occurrence
  (the second ``maybe'' below is the last entry of the call, yet both objections count as
  addressed and nothing is unresolved), and a message longer than 200 characters is never
  found (the objection below is answered by the assistant, yet nothing counts as
  addressed and the concern is listed as unresolved).
\<close>

theorem addressed_by_text_match:
  "field_of (\<lambda>s. length (objections_raised s)) (generate_summary repeated_objection_call None) = Some 2 \<and>
   field_of (\<lambda>s. length (concerns_addressed s)) (generate_summary repeated_objection_call None) = Some 2 \<and>
   field_of unresolved_concerns (generate_summary repeated_objection_call None) = Some [] \<and>
   \<not> followed_by_assistant repeated_objection_call 2 \<and>
   field_of (\<lambda>s. length (objections_raised s)) (generate_summary long_objection_call None) = Some 1 \<and>
   field_of concerns_addressed (generate_summary long_objection_call None) = Some [] \<and>
   field_of unresolved_concerns (generate_summary long_objection_call None) = Some [''price: expensive''] \<and>
   followed_by_assistant long_objection_call 0"
  by code_simp


subsection \<open>C9: call outcome and satisfaction\<close>




section \<open>Properties of the order-field extractor\<close>

subsection \<open>Helper lemmas: what a match consumes and captures\<close>

lemma iter_len:
  assumes f: "\<And>st st'. st' \<in> set (f st) \<Longrightarrow> length (fst (snd st')) + m \<le> length (fst (snd st))"
  shows "st' \<in> set (iter f g hi lo st) \<Longrightarrow> length (fst (snd st')) + lo * m \<le> length (fst (snd st))"
proof (induction hi arbitrary: lo st)
  case 0
  then show ?case by (auto split: if_splits)
next
  case (Suc hi)
  from Suc.prems consider
    (stop) "lo = 0" "st' = st"
    | (more) mid where "mid \<in> set (f st)" "st' \<in> set (iter f g hi (lo - 1) mid)"
    by (auto simp: Let_def split: if_splits)
  then show ?case
  proof cases
    case stop
    then show ?thesis by simp
  next
    case more
    from Suc.IH[OF more(2)] f[OF more(1)]
    have "length (fst (snd st')) + (lo - 1) * m + m \<le> length (fst (snd st))" by simp
    moreover have "lo * m \<le> (lo - 1) * m + m" by (cases lo) simp_all
    ultimately show ?thesis by simp
  qed
qed

lemma ms_len:
  "st' \<in> set (ms ic r st) \<Longrightarrow> length (fst (snd st')) + min_len r \<le> length (fst (snd st))"
proof (induction r arbitrary: st st')
  case (Seq a b)
  then obtain mid where "mid \<in> set (ms ic a st)" "st' \<in> set (ms ic b mid)" by auto
  with Seq.IH(1)[of mid st] Seq.IH(2)[of st' mid] show ?case by simp
next
  case (Alt a b)
  then have "st' \<in> set (ms ic a st) \<or> st' \<in> set (ms ic b st)" by simp
  with Alt.IH(1)[of st' st] Alt.IH(2)[of st' st] show ?case by auto
next
  case (Rep lo hi g r)
  obtain p s c where st: "st = (p, s, c)" by (cases st)
  from Rep.prems st
  have "st' \<in> set (iter (ms ic r) g (case hi of None \<Rightarrow> lo + length s | Some h \<Rightarrow> h) lo st)"
    by simp
  from iter_len[of "ms ic r" "min_len r", OF Rep.IH this] show ?case by simp
next
  case (Group i r)
  obtain p s c where st: "st = (p, s, c)" by (cases st)
  from Group.prems st obtain q where "q \<in> set (ms ic r st)" "fst (snd st') = fst (snd q)"
    by (auto simp: case_prod_beta)
  with Group.IH[of q st] show ?case by simp
qed (auto split: list.splits if_splits)

lemma iter_keep:
  assumes f: "\<And>st st'. st' \<in> set (f st) \<Longrightarrow> snd (snd st') i = snd (snd st) i"
  shows "st' \<in> set (iter f g hi lo st) \<Longrightarrow> snd (snd st') i = snd (snd st) i"
proof (induction hi arbitrary: lo st)
  case 0
  then show ?case by (auto split: if_splits)
next
  case (Suc hi)
  from Suc.prems consider
    (stop) "st' = st"
    | (more) mid where "mid \<in> set (f st)" "st' \<in> set (iter f g hi (lo - 1) mid)"
    by (auto simp: Let_def split: if_splits)
  then show ?case
  proof cases
    case stop
    then show ?thesis by simp
  next
    case more
    from Suc.IH[OF more(2)] f[OF more(1)] show ?thesis by simp
  qed
qed

lemma ms_keep:
  "i \<notin> set (gids r) \<Longrightarrow> st' \<in> set (ms ic r st) \<Longrightarrow> snd (snd st') i = snd (snd st) i"
proof (induction r arbitrary: st st')
  case (Seq a b)
  then obtain mid where "mid \<in> set (ms ic a st)" "st' \<in> set (ms ic b mid)" by auto
  with Seq.IH(1)[of mid st] Seq.IH(2)[of st' mid] Seq.prems(1) show ?case by simp
next
  case (Alt a b)
  then have "st' \<in> set (ms ic a st) \<or> st' \<in> set (ms ic b st)" by simp
  with Alt.IH(1)[of st' st] Alt.IH(2)[of st' st] Alt.prems(1) show ?case by auto
next
  case (Rep lo hi g r)
  obtain p s c where st: "st = (p, s, c)" by (cases st)
  from Rep.prems st
  have "st' \<in> set (iter (ms ic r) g (case hi of None \<Rightarrow> lo + length s | Some h \<Rightarrow> h) lo st)"
    by simp
  moreover have "\<And>a b. b \<in> set (ms ic r a) \<Longrightarrow> snd (snd b) i = snd (snd a) i"
    using Rep.IH Rep.prems(1) by simp
  ultimately show ?case by (rule iter_keep[rotated])
next
  case (Group j r)
  obtain p s c where st: "st = (p, s, c)" by (cases st)
  from Group.prems st obtain q where "q \<in> set (ms ic r st)"
    "snd (snd st') = (snd (snd q))(j := Some (take (length s - length (fst (snd q))) s))"
    by (auto simp: case_prod_beta)
  with Group.IH[of q st] Group.prems(1) show ?case by simp
qed (auto split: list.splits if_splits)

lemma ms_captures:
  "captures_nonempty i r \<Longrightarrow> st' \<in> set (ms ic r st) \<Longrightarrow> truthy (snd (snd st') i)"
proof (induction r arbitrary: st st')
  case (Seq a b)
  then obtain mid where mid: "mid \<in> set (ms ic a st)" "st' \<in> set (ms ic b mid)" by auto
  show ?case
  proof (cases "captures_nonempty i b")
    case True
    then show ?thesis using Seq.IH(2)[OF _ mid(2)] by simp
  next
    case False
    with Seq.prems(1) have a: "captures_nonempty i a" "i \<notin> set (gids b)" by simp_all
    from Seq.IH(1)[OF a(1) mid(1)] ms_keep[OF a(2) mid(2)] show ?thesis by simp
  qed
next
  case (Alt a b)
  then have "st' \<in> set (ms ic a st) \<or> st' \<in> set (ms ic b st)" by simp
  with Alt.IH(1)[of st' st] Alt.IH(2)[of st' st] Alt.prems(1) show ?case by auto
next
  case (Group j r)
  obtain p s c where st: "st = (p, s, c)" by (cases st)
  from Group.prems st obtain q where q: "q \<in> set (ms ic r st)"
    "snd (snd st') = (snd (snd q))(j := Some (take (length s - length (fst (snd q))) s))"
    by (auto simp: case_prod_beta)
  from ms_len[OF q(1)] st Group.prems(1) have "length (fst (snd q)) < length s" by simp
  then have "s \<noteq> []" by auto
  with q(2) Group.prems(1) \<open>length (fst (snd q)) < length s\<close> show ?case
    by (simp add: truthy_def)
qed simp_all

lemma search_from_captures:
  "captures_nonempty i r \<Longrightarrow> search_from ic r p s = Some c \<Longrightarrow> truthy (c i)"
proof (induction s arbitrary: p)
  case Nil
  then obtain st rest where "ms ic r (p, [], (\<lambda>i. None)) = st # rest" "snd (snd st) = c"
    by (auto split: list.splits)
  then have "st \<in> set (ms ic r (p, [], (\<lambda>i. None)))" by simp
  from ms_captures[OF Nil(1) this] \<open>snd (snd st) = c\<close> show ?case by simp
next
  case (Cons x xs)
  show ?case
  proof (cases "ms ic r (p, x # xs, (\<lambda>i. None))")
    case Nil
    with Cons show ?thesis by simp
  next
    case (Cons st rest)
    with Cons.prems(2) have "snd (snd st) = c" by (auto split: prod.splits)
    moreover from Cons have "st \<in> set (ms ic r (p, x # xs, (\<lambda>i. None)))" by simp
    ultimately show ?thesis using ms_captures[OF Cons.prems(1)] by blast
  qed
qed

lemma captures_ngroups: "captures_nonempty i r \<Longrightarrow> i \<le> ngroups_of r"
  by (induction r) (auto split: if_splits)

lemma re_search_good:
  "captures_nonempty 1 (snd pat) \<Longrightarrow> re_search pat s = Some m \<Longrightarrow> good_match m"
  by (auto simp: re_search_def good_match_def split: option.splits
      dest: search_from_captures captures_ngroups)

lemma first_match_good:
  "all_capture pats \<Longrightarrow> first_match pats s = Some m \<Longrightarrow> good_match m"
proof (induction pats)
  case Nil
  then show ?case by simp
next
  case (Cons pat pats)
  show ?case
  proof (cases "re_search pat s")
    case None
    with Cons show ?thesis by (simp add: all_capture_def)
  next
    case (Some m')
    with Cons.prems have "m' = m" "captures_nonempty 1 (snd pat)" by (simp_all add: all_capture_def)
    with Some show ?thesis using re_search_good by blast
  qed
qed

lemma group1_with_good:
  "(\<And>m. mo = Some m \<Longrightarrow> good_match m) \<Longrightarrow> group1_with f mo = Inr (group1_of f mo)"
  by (cases mo) (auto simp: group1_with_def group1_of_def good_match_def group_def truthy_def
      split: option.splits)

lemma title_of_good:
  "good_match m \<Longrightarrow> title_of m = Inr (strip (the (groups m 1)))"
  by (simp add: title_of_def good_match_def group_def bind_err_def)


lemma extract_order_data_eq:
  assumes "all_capture name_patterns" "captures_nonempty 1 (snd customer_id_pattern)"
    "all_capture title_patterns" "all_capture author_patterns"
    "captures_nonempty 1 (snd genre_pattern)" "all_capture pay_patterns"
    "all_capture address_patterns" "all_capture special_patterns"
  shows "extract_order_data transcripts =
     (let full_text = full_text_of transcripts;
          delivery_opt = (case delivery_cue delivery_patterns full_text of
                            None \<Rightarrow> ''home_delivery'' | Some option \<Rightarrow> option);
          quantity_val = quantity_of (qty_match_of full_text)
      in Inr \<lparr> order_id = None,
              customer_id = group1_of strip (re_search customer_id_pattern full_text),
              customer_name = group1_of strip (first_match name_patterns full_text),
              book_title = group1_of strip (first_match title_patterns full_text),
              author = group1_of strip (first_match author_patterns full_text),
              genre = group1_of lower (re_search genre_pattern full_text),
              quantity = quantity_val,
              unit_price = Some 15.99,
              total_amount = (case quantity_val of
                     None \<Rightarrow> None
                   | Some q \<Rightarrow> if q \<noteq> 0 then Some (real_of_int q * 15.99) else None),
              payment_method = group1_of lower (first_match pay_patterns full_text),
              delivery_option = Some delivery_opt,
              delivery_address = (if delivery_opt = ''home_delivery''
                 then group1_of strip (first_match address_patterns full_text) else None),
              order_status = ''draft'',
              order_date = None,
              special_requests = group1_of strip (first_match special_patterns full_text) \<rparr>)"
proof -
  let ?t = "full_text_of transcripts"
  have a: "group1_with strip (first_match address_patterns ?t)
             = Inr (group1_of strip (first_match address_patterns ?t))"
    by (rule group1_with_good) (rule first_match_good[OF assms(7)])
  have n: "group1_with strip (first_match name_patterns ?t)
             = Inr (group1_of strip (first_match name_patterns ?t))"
    by (rule group1_with_good) (rule first_match_good[OF assms(1)])
  have c: "group1_with strip (re_search customer_id_pattern ?t)
             = Inr (group1_of strip (re_search customer_id_pattern ?t))"
    by (rule group1_with_good) (rule re_search_good[OF assms(2)])
  have au: "group1_with strip (first_match author_patterns ?t)
             = Inr (group1_of strip (first_match author_patterns ?t))"
    by (rule group1_with_good) (rule first_match_good[OF assms(4)])
  have g: "group1_with lower (re_search genre_pattern ?t)
             = Inr (group1_of lower (re_search genre_pattern ?t))"
    by (rule group1_with_good) (rule re_search_good[OF assms(5)])
  have p: "group1_with lower (first_match pay_patterns ?t)
             = Inr (group1_of lower (first_match pay_patterns ?t))"
    by (rule group1_with_good) (rule first_match_good[OF assms(6)])
  have sp: "group1_with strip (first_match special_patterns ?t)
             = Inr (group1_of strip (first_match special_patterns ?t))"
    by (rule group1_with_good) (rule first_match_good[OF assms(8)])
  have t: "(case first_match title_patterns ?t of
                  None \<Rightarrow> Inr None
                | Some m \<Rightarrow> bind_err (title_of m) (\<lambda>t. Inr (Some t)))
             = Inr (group1_of strip (first_match title_patterns ?t))"
  proof (cases "first_match title_patterns ?t")
    case None
    then show ?thesis by (simp add: group1_of_def)
  next
    case (Some m)
    from first_match_good[OF assms(3) Some] Some show ?thesis
      by (simp add: title_of_good bind_err_def group1_of_def)
  qed
  show ?thesis
    unfolding extract_order_data_def Let_def full_text_of_def[symmetric]
    by (simp add: a n c au g p sp t bind_err_def)
qed

lemma patterns_capture:
  "all_capture name_patterns" "captures_nonempty 1 (snd customer_id_pattern)"
  "all_capture title_patterns" "all_capture author_patterns"
  "captures_nonempty 1 (snd genre_pattern)" "all_capture pay_patterns"
  "all_capture address_patterns" "all_capture special_patterns"
  by code_simp+

lemmas extract_order_data_closed = extract_order_data_eq [OF patterns_capture]

lemma group1_of_None [simp]: "group1_of f None = None"
  by (simp add: group1_of_def)


lemma quantity_of_None: "quantity_of None = None"
  by (simp add: quantity_of_def)

lemma priya_name:
  "group1_of strip (first_match name_patterns (full_text_of priya_call)) = Some ''Priya''"
  by code_simp

lemma priya_qty: "qty_match_of (full_text_of priya_call) = None"
  by code_simp

lemma priya_pay:
  "group1_of lower (first_match pay_patterns (full_text_of priya_call)) = Some ''card''"
  by code_simp

lemma priya_delivery: "delivery_cue delivery_patterns (full_text_of priya_call) = None"
  by code_simp

lemma please_name:
  "group1_of strip (first_match name_patterns (full_text_of priya_please_call)) = Some ''Priya''"
  by code_simp

lemma please_qty: "quantity_of (qty_match_of (full_text_of priya_please_call)) = Some 2"
  by code_simp

lemma please_pay:
  "group1_of lower (first_match pay_patterns (full_text_of priya_please_call)) = Some ''card''"
  by code_simp

lemma please_delivery:
  "delivery_cue delivery_patterns (full_text_of priya_please_call) = None"
  by code_simp


subsection \<open>C5: the transcript of Priya\<close>

text \<open>
  C5 as stated fails in one field. For the transcript whose messages are
  ``my name is Priya'', ``2 copies'' and ``pay by card'' the extractor returns no quantity:
  each numeric quantity rule asks for a word before the number (quantity, need, want,
  order, buy, purchase, get) or for ``of'' or ``please'' after the unit, and the bare
  message has neither.
\<close>

theorem priya_quantity_counterexample:
  "field_of quantity (extract_order_data priya_call) = Some None"
  by (simp add: extract_order_data_closed Let_def field_of_def priya_qty quantity_of_None)


text \<open>
  C5 as amended: for that transcript the extractor returns customer name ``Priya'', no
  quantity, payment method ``card'', delivery option ``home\_delivery'' and status
  ``draft''; when the second message reads ``2 copies please'' it returns the same
  with quantity 2.
\<close>

theorem priya_extraction:
  "field_of customer_name (extract_order_data priya_call) = Some (Some ''Priya'') \<and>
   field_of quantity (extract_order_data priya_call) = Some None \<and>
   field_of payment_method (extract_order_data priya_call) = Some (Some ''card'') \<and>
   field_of delivery_option (extract_order_data priya_call) = Some (Some ''home_delivery'') \<and>
   field_of order_status (extract_order_data priya_call) = Some ''draft'' \<and>
   field_of customer_name (extract_order_data priya_please_call) = Some (Some ''Priya'') \<and>
   field_of quantity (extract_order_data priya_please_call) = Some (Some 2) \<and>
   field_of payment_method (extract_order_data priya_please_call) = Some (Some ''card'') \<and>
   field_of delivery_option (extract_order_data priya_please_call) = Some (Some ''home_delivery'') \<and>
   field_of order_status (extract_order_data priya_please_call) = Some ''draft''"
  by (simp add: extract_order_data_closed Let_def field_of_def priya_name priya_qty priya_pay
      priya_delivery please_name please_qty please_pay please_delivery quantity_of_None)


subsection \<open>C6: the guarantees of the extractor\<close>



end
